theory Spec2Isabelle
  imports Complex_Main
begin

section \<open>Python values, exceptions and decimal rendering\<close>

text \<open>
  The values that the task configuration dictionary holds and that serve as dictionary
  keys. Python's \<open>float\<close> is modelled by \<open>real\<close>: the program only stores, passes on
  and (in the search driver) orders these numbers, and NaN is not represented.
\<close>

datatype pyval = PNone | PBool bool | PInt int | PFloat real | PStr string

text \<open>Python truthiness, as used by \<open>if self.tuning:\<close>.\<close>

fun truthy :: "pyval \<Rightarrow> bool" where
  "truthy PNone = False"
| "truthy (PBool b) = b"
| "truthy (PInt i) = (i \<noteq> 0)"
| "truthy (PFloat x) = (x \<noteq> 0)"
| "truthy (PStr s) = (s \<noteq> [])"

text \<open>
  Instances of Python's class \<open>Exception\<close>, which is what the handler
  \<open>except Exception as e\<close> catches. \<open>KeyError\<close> carries the missing key.
  \<open>OtherError\<close> stands for whatever an external collaborator raises.
\<close>

datatype exn =
    KeyError pyval
  | AttributeError string
  | ValueError string
  | UDFException string
  | OtherError string

text \<open>\<open>str(n)\<close> for a Python integer: decimal digits, with a minus sign when negative.\<close>

definition digit :: "nat \<Rightarrow> char" where
  "digit d = ''0123456789'' ! d"

function str_nat :: "nat \<Rightarrow> string" where
  "str_nat n = (if n < 10 then [digit n] else str_nat (n div 10) @ [digit (n mod 10)])"
  by pat_completeness auto
termination
  by (relation "measure (\<lambda>n. n)") auto

declare str_nat.simps [simp del]

definition str :: "int \<Rightarrow> string" where
  "str i = (if i < 0 then CHR ''-'' # str_nat (nat (- i)) else str_nat (nat i))"

section \<open>UDF configurations\<close>

text \<open>
  \<open>UDFConfigurations\<close> declares one attribute, \<open>_output_data_type\<close>, by annotation
  only. An instance therefore is in one of three states: the attribute was never
  assigned (\<open>None\<close> below; reading it raises \<open>AttributeError\<close>), it holds Python's
  \<open>None\<close> (\<open>Some None\<close>), or it holds a type (\<open>Some (Some t)\<close>). The class \<open>Type\<close>
  is a type parameter.
\<close>

record 'ty UDFConfigurations =
  output_data_type :: "'ty option option"

definition get_output_data_type ::
  "'ty UDFConfigurations \<Rightarrow> (exn + 'ty option) \<times> 'ty UDFConfigurations" where
  "get_output_data_type self =
     (case output_data_type self of
        None \<Rightarrow> (Inl (AttributeError ''_output_data_type''), self)
      | Some v \<Rightarrow> (Inr v, self))"

definition check :: "'ty UDFConfigurations \<Rightarrow> (exn + unit) \<times> 'ty UDFConfigurations" where
  "check self =
     (case output_data_type self of
        None \<Rightarrow> (Inl (AttributeError ''_output_data_type''), self)
      | Some None \<Rightarrow> (Inl (UDFException ''UDF output_data_type is not set.''), self)
      | Some (Some t) \<Rightarrow> (Inr (), self))"

section \<open>The shared state of one training process\<close>

text \<open>
  Modelled from the spec: \<open>TrainingState\<close> is declared in
  \<open>iotdb.thrift.common.ttypes\<close>, which is not part of the sources at hand; the spec
  names the members \<open>FINISHED\<close> and \<open>FAILED\<close>.
\<close>

datatype TrainingState = FINISHED | FAILED

type_synonym configs = "string \<rightharpoonup> pyval"

text \<open>
  Everything the scheduler mutates or emits, threaded through every operation:
  \<^item> \<open>task_configs\<close>: the one dictionary object that the caller hands to the task, and
    that the task hands on to the trial objective (\<open>self.task_configs\<close> and
    \<open>self.trial_configs\<close> are the same object);
  \<^item> \<open>task_trial_map\<close>: the trial registry, a dictionary of dictionaries, from model
    identifier to trial key to process identifier;
  \<^item> \<open>rpc_calls\<close>: the calls of \<open>confignode_client.update_model_state\<close>, in order;
  \<^item> \<open>warn_log\<close>: the arguments of \<open>logger.warn\<close>, in order;
  \<^item> \<open>stdout\<close>: the pairs printed by \<open>print(trial._trial_id, loss)\<close>;
  \<^item> \<open>executor_starts\<close>: the calls of the trial executor's \<open>start()\<close>, each with the
    configuration it ran under and how it ended.
  Dictionary keys are compared by HOL equality; the keys that the program writes are
  strings and integers, which Python never identifies either.
\<close>

record world =
  task_configs :: configs
  task_trial_map :: "pyval \<rightharpoonup> (pyval \<rightharpoonup> nat)"
  rpc_calls :: "(pyval \<times> TrainingState \<times> string) list"
  warn_log :: "exn list"
  stdout :: "(int \<times> real) list"
  executor_starts :: "(configs \<times> (exn + real)) list"

text \<open>
  The external collaborators, as parameters. Each may raise (\<open>Inl\<close>, or \<open>Some\<close> for a
  call without result). They are taken not to touch the state above.
  \<^item> \<open>os_getpid\<close>: the identifier of the process that executes the task;
  \<^item> \<open>borrow_config_node_client\<close>: \<open>client_manager.borrow_config_node_client()\<close>;
  \<^item> \<open>update_model_state\<close>: the coordinator's remote call;
  \<^item> \<open>create_forecast_model\<close>: the model factory, applied to the model configuration;
  \<^item> \<open>ForecastingTrainingTrial\<close>: the constructor of the trial executor;
  \<^item> \<open>trial_start\<close>: the executor's \<open>start()\<close>, which sees the configuration
    dictionary as it is when the call is made;
  \<^item> \<open>suggest_float\<close>: the sampling primitive of the trial handle, with the handle
    given by its \<open>_trial_id\<close>, then the name, the bounds and the \<open>log\<close> flag.
\<close>

record ('mc, 'ds, 'md, 'tr) env =
  os_getpid :: nat
  borrow_config_node_client :: "exn option"
  update_model_state :: "pyval \<Rightarrow> TrainingState \<Rightarrow> string \<Rightarrow> exn option"
  create_forecast_model :: "'mc \<Rightarrow> exn + 'md"
  ForecastingTrainingTrial :: "configs \<Rightarrow> 'md \<Rightarrow> 'mc \<Rightarrow> 'ds \<Rightarrow> exn + 'tr"
  trial_start :: "'tr \<Rightarrow> configs \<Rightarrow> exn + real"
  suggest_float :: "int \<Rightarrow> string \<Rightarrow> real \<Rightarrow> real \<Rightarrow> bool \<Rightarrow> real"

section \<open>The search driver\<close>

text \<open>
  Modelled from the spec: the search driver (\<open>optuna\<close>'s study, with \<open>create_study\<close>,
  \<open>optimize\<close> and \<open>best_trial\<close>) is an external library whose code is not part of the
  sources at hand. By the spec it invokes the objective once per iteration, each time
  with a handle that carries the next internal sequence number, blocks until the
  objective returns, lets an error of the objective propagate unchanged, stops after
  the trial budget, and tracks the best trial by minimum loss, the first seen winning
  a tie. A study records the direction, the next sequence number and the completed
  trials (sequence number and loss) in order.
\<close>

datatype StudyDirection = MINIMIZE | MAXIMIZE

record study =
  direction :: StudyDirection
  next_trial_id :: int
  trials :: "(int \<times> real) list"

text \<open>
  Modelled from the spec: \<open>optuna.create_study(direction=...)\<close>, a fresh study whose
  sequence numbers start at 0.
\<close>

definition create_study :: "StudyDirection \<Rightarrow> study" where
  "create_study d = \<lparr>direction = d, next_trial_id = 0, trials = []\<rparr>"

text \<open>
  Modelled from the spec: \<open>study.best_trial\<close>. The best trial so far is replaced only
  by a strictly better one, so that the first seen wins a tie; with no completed
  trial there is none (the library raises, see \<open>call_body\<close>).
\<close>

fun better :: "StudyDirection \<Rightarrow> real \<Rightarrow> real \<Rightarrow> bool" where
  "better MINIMIZE new best = (new < best)"
| "better MAXIMIZE new best = (best < new)"

definition keep_best :: "StudyDirection \<Rightarrow> int \<times> real \<Rightarrow> int \<times> real \<Rightarrow> int \<times> real" where
  "keep_best d best new = (if better d (snd new) (snd best) then new else best)"

definition best_trial :: "study \<Rightarrow> (int \<times> real) option" where
  "best_trial st =
     (case trials st of
        [] \<Rightarrow> None
      | t # ts \<Rightarrow> Some (foldl (keep_best (direction st)) t ts))"

text \<open>
  Modelled from the spec: \<open>study.optimize(objective, n_trials)\<close>. The objective is a
  state transformer; \<open>Some e\<close> in the result is the error that ended the run early.
\<close>

fun optimize ::
  "(int \<Rightarrow> 'w \<Rightarrow> (exn + real) \<times> 'w) \<Rightarrow> nat \<Rightarrow> study \<Rightarrow> 'w \<Rightarrow> exn option \<times> study \<times> 'w" where
  "optimize objective 0 st w = (None, st, w)"
| "optimize objective (Suc n) st w =
     (let k = next_trial_id st;
          st1 = st\<lparr>next_trial_id := k + 1\<rparr>
      in case objective k w of
           (Inl e, w') \<Rightarrow> (Some e, st1, w')
         | (Inr loss, w') \<Rightarrow> optimize objective n (st1\<lparr>trials := trials st1 @ [(k, loss)]\<rparr>) w')"

section \<open>The trial objective\<close>

text \<open>
  \<open>TrainingTrialObjective\<close> holds references to the shared configuration dictionary
  and to the registry (both live in the \<open>world\<close>), the model configuration and the
  dataset. \<open>TrainingTrialObjective_call\<close> is its \<open>__call__\<close>, given the handle's
  \<open>_trial_id\<close>. Note the key of the registry entry: the integer \<open>trial._trial_id\<close>.
\<close>

record ('mc, 'ds) TrainingTrialObjective =
  obj_model_configs :: 'mc
  obj_dataset :: 'ds

definition TrainingTrialObjective_call ::
  "('mc, 'ds, 'md, 'tr) env \<Rightarrow> ('mc, 'ds) TrainingTrialObjective \<Rightarrow> int \<Rightarrow> world
     \<Rightarrow> (exn + real) \<times> world" where
  "TrainingTrialObjective_call env self trial_id w =
     (let lr = suggest_float env trial_id ''lr'' (1 / 10 ^ 7) (1 / 10) True;
          w1 = w\<lparr>task_configs := (task_configs w)(''learning_rate'' \<mapsto> PFloat lr)\<rparr>;
          w2 = w1\<lparr>task_configs := (task_configs w1)(''trial_id'' \<mapsto> PStr (''tid_'' @ str trial_id))\<rparr>
      in case create_forecast_model env (obj_model_configs self) of
           Inl e \<Rightarrow> (Inl e, w2)
         | Inr model \<Rightarrow>
             (case task_configs w2 ''model_id'' of
                None \<Rightarrow> (Inl (KeyError (PStr ''model_id'')), w2)
              | Some m \<Rightarrow>
                  (case task_trial_map w2 m of
                     None \<Rightarrow> (Inl (KeyError m), w2)
                   | Some inner \<Rightarrow>
                       (let w3 = w2\<lparr>task_trial_map :=
                                   (task_trial_map w2)(m \<mapsto> inner(PInt trial_id \<mapsto> os_getpid env))\<rparr>
                        in case ForecastingTrainingTrial env (task_configs w3) model
                                  (obj_model_configs self) (obj_dataset self) of
                             Inl e \<Rightarrow> (Inl e, w3)
                           | Inr tr \<Rightarrow>
                               (let res = trial_start env tr (task_configs w3);
                                    w4 = w3\<lparr>executor_starts :=
                                            executor_starts w3 @ [(task_configs w3, res)]\<rparr>
                                in case res of
                                     Inl e \<Rightarrow> (Inl e, w4)
                                   | Inr loss \<Rightarrow>
                                       (Inr loss, w4\<lparr>stdout := stdout w4 @ [(trial_id, loss)]\<rparr>))))))"

section \<open>The task orchestrator\<close>

text \<open>
  The attributes of a \<open>ForecastingTrainingTask\<close>. \<open>study\<close> is assigned only when
  tuning, \<open>default_trial_id\<close> and \<open>trial\<close> only otherwise; reading an attribute that
  was not assigned raises \<open>AttributeError\<close>.
\<close>

record ('mc, 'ds, 'md, 'tr) ForecastingTrainingTask =
  model_configs :: 'mc
  model :: 'md
  dataset :: 'ds
  model_id :: pyval
  tuning :: pyval
  study :: "study option"
  default_trial_id :: "string option"
  trial :: "'tr option"

text \<open>\<open>__init__\<close>: the constructor, with the base class's assignments.\<close>

definition ForecastingTrainingTask_init ::
  "('mc, 'ds, 'md, 'tr) env \<Rightarrow> 'mc \<Rightarrow> 'md \<Rightarrow> 'ds \<Rightarrow> world
     \<Rightarrow> (exn + ('mc, 'ds, 'md, 'tr) ForecastingTrainingTask) \<times> world" where
  "ForecastingTrainingTask_init env mc md ds w =
     (case task_configs w ''model_id'' of
        None \<Rightarrow> (Inl (KeyError (PStr ''model_id'')), w)
      | Some mid \<Rightarrow>
          (case task_configs w ''tuning'' of
             None \<Rightarrow> (Inl (KeyError (PStr ''tuning'')), w)
           | Some tun \<Rightarrow>
               (case borrow_config_node_client env of
                  Some e \<Rightarrow> (Inl e, w)
                | None \<Rightarrow>
                    (let self = \<lparr>model_configs = mc, model = md, dataset = ds,
                                 model_id = mid, tuning = tun, study = None,
                                 default_trial_id = None, trial = None\<rparr>
                     in if truthy tun
                        then (Inr (self\<lparr>study := Some (create_study MINIMIZE)\<rparr>), w)
                        else
                          (let w1 = w\<lparr>task_configs :=
                                      (task_configs w)(''trial_id'' \<mapsto> PStr ''tid_0'')\<rparr>
                           in case ForecastingTrainingTrial env (task_configs w1) md mc ds of
                                Inl e \<Rightarrow> (Inl e, w1)
                              | Inr tr \<Rightarrow>
                                  (case task_trial_map w1 mid of
                                     None \<Rightarrow> (Inl (KeyError mid), w1)
                                   | Some inner \<Rightarrow>
                                       (Inr (self\<lparr>default_trial_id := Some ''tid_0'',
                                                  trial := Some tr\<rparr>),
                                        w1\<lparr>task_trial_map :=
                                             (task_trial_map w1)
                                               (mid \<mapsto> inner(PStr ''tid_0'' \<mapsto> os_getpid env))\<rparr>)))))))"

text \<open>
  The body of the \<open>try\<close> block of \<open>__call__\<close>. The task object comes back too, since
  \<open>optimize\<close> changes the study it holds.
\<close>

definition call_body ::
  "('mc, 'ds, 'md, 'tr) env \<Rightarrow> ('mc, 'ds, 'md, 'tr) ForecastingTrainingTask \<Rightarrow> world
     \<Rightarrow> (exn + unit) \<times> ('mc, 'ds, 'md, 'tr) ForecastingTrainingTask \<times> world" where
  "call_body env self w =
     (if truthy (tuning self) then
        (case study self of
           None \<Rightarrow> (Inl (AttributeError ''study''), self, w)
         | Some st \<Rightarrow>
             (case optimize (TrainingTrialObjective_call env
                       \<lparr>obj_model_configs = model_configs self, obj_dataset = dataset self\<rparr>)
                     20 st w of
                (Some e, st', w') \<Rightarrow> (Inl e, self\<lparr>study := Some st'\<rparr>, w')
              | (None, st', w') \<Rightarrow>
                  (case best_trial st' of
                     None \<Rightarrow> (Inl (ValueError ''No trials are completed yet.''),
                              self\<lparr>study := Some st'\<rparr>, w')
                   | Some best \<Rightarrow>
                       (let best_trial_id = ''tid_'' @ str (fst best);
                            w'' = w'\<lparr>rpc_calls :=
                                     rpc_calls w' @ [(model_id self, FINISHED, best_trial_id)]\<rparr>
                        in case update_model_state env (model_id self) FINISHED best_trial_id of
                             Some e \<Rightarrow> (Inl e, self\<lparr>study := Some st'\<rparr>, w'')
                           | None \<Rightarrow> (Inr (), self\<lparr>study := Some st'\<rparr>, w'')))))
      else
        (case trial self of
           None \<Rightarrow> (Inl (AttributeError ''trial''), self, w)
         | Some tr \<Rightarrow>
             (let res = trial_start env tr (task_configs w);
                  w1 = w\<lparr>executor_starts := executor_starts w @ [(task_configs w, res)]\<rparr>
              in case res of
                   Inl e \<Rightarrow> (Inl e, self, w1)
                 | Inr loss \<Rightarrow>
                     (case default_trial_id self of
                        None \<Rightarrow> (Inl (AttributeError ''default_trial_id''), self, w1)
                      | Some tid \<Rightarrow>
                          (let w2 = w1\<lparr>rpc_calls :=
                                      rpc_calls w1 @ [(model_id self, FINISHED, tid)]\<rparr>
                           in case update_model_state env (model_id self) FINISHED tid of
                                Some e \<Rightarrow> (Inl e, self, w2)
                              | None \<Rightarrow> (Inr (), self, w2))))))"

text \<open>\<open>__call__\<close>: the body, and the handler that logs the exception and raises it again.\<close>

definition ForecastingTrainingTask_call ::
  "('mc, 'ds, 'md, 'tr) env \<Rightarrow> ('mc, 'ds, 'md, 'tr) ForecastingTrainingTask \<Rightarrow> world
     \<Rightarrow> (exn + unit) \<times> ('mc, 'ds, 'md, 'tr) ForecastingTrainingTask \<times> world" where
  "ForecastingTrainingTask_call env self w =
     (case call_body env self w of
        (Inl e, self', w') \<Rightarrow> (Inl e, self', w'\<lparr>warn_log := warn_log w' @ [e]\<rparr>)
      | (Inr u, self', w') \<Rightarrow> (Inr u, self', w'))"

section \<open>Auxiliary notions for the statements\<close>

text \<open>
  \<open>registers_only pid reg reg'\<close>: the registry \<open>reg'\<close> has the model identifiers of
  \<open>reg\<close>, and each of its entries is either the entry of \<open>reg\<close> or holds \<open>pid\<close>.
\<close>

definition registers_only ::
  "nat \<Rightarrow> (pyval \<rightharpoonup> (pyval \<rightharpoonup> nat)) \<Rightarrow> (pyval \<rightharpoonup> (pyval \<rightharpoonup> nat)) \<Rightarrow> bool" where
  "registers_only pid reg reg' \<longleftrightarrow>
     (\<forall>m. (reg' m = None \<longrightarrow> reg m = None) \<and>
          (\<forall>inner'. reg' m = Some inner' \<longrightarrow>
             (\<exists>inner. reg m = Some inner \<and>
                (\<forall>key. inner' key = inner key \<or> inner' key = Some pid))))"

text \<open>
  The scenario of the spec: model identifier \<open>m1\<close>, an empty registry entry for it,
  and trials whose losses are 0.5, 0.3, 0.9, 0.9, ... in the order of their trial
  identifiers. The sampler returns the lower bound; no collaborator raises. In
  \<open>failing_env\<close> the executor's \<open>start()\<close> raises instead.
\<close>

definition scenario_loss :: "configs \<Rightarrow> real" where
  "scenario_loss cfg =
     (if cfg ''trial_id'' = Some (PStr ''tid_0'') then 1 / 2
      else if cfg ''trial_id'' = Some (PStr ''tid_1'') then 3 / 10
      else 9 / 10)"

definition scenario_env :: "(unit, unit, unit, unit) env" where
  "scenario_env =
     \<lparr>os_getpid = 4242,
      borrow_config_node_client = None,
      update_model_state = (\<lambda>m s t. None),
      create_forecast_model = (\<lambda>mc. Inr ()),
      ForecastingTrainingTrial = (\<lambda>cfg md mc ds. Inr ()),
      trial_start = (\<lambda>tr cfg. Inr (scenario_loss cfg)),
      suggest_float = (\<lambda>k name lo hi lg. lo)\<rparr>"

definition failing_env :: "(unit, unit, unit, unit) env" where
  "failing_env = scenario_env\<lparr>trial_start := (\<lambda>tr cfg. Inl (OtherError ''training failed''))\<rparr>"

definition scenario_world :: "bool \<Rightarrow> world" where
  "scenario_world t =
     \<lparr>task_configs = [''model_id'' \<mapsto> PStr ''m1'', ''tuning'' \<mapsto> PBool t],
      task_trial_map = [PStr ''m1'' \<mapsto> Map.empty],
      rpc_calls = [], warn_log = [], stdout = [], executor_starts = []\<rparr>"

text \<open>
  The task object that the constructor yields in the scenario, the world after the
  construction, the world after the invocation that follows, and the world after an
  invocation in direct mode whose executor raises.
\<close>

definition scenario_task :: "bool \<Rightarrow> (unit, unit, unit, unit) ForecastingTrainingTask" where
  "scenario_task t =
     \<lparr>model_configs = (), model = (), dataset = (), model_id = PStr ''m1'', tuning = PBool t,
      study = (if t then Some (create_study MINIMIZE) else None),
      default_trial_id = (if t then None else Some ''tid_0''),
      trial = (if t then None else Some ())\<rparr>"

definition scenario_constructed :: "bool \<Rightarrow> world" where
  "scenario_constructed t =
     snd (ForecastingTrainingTask_init scenario_env () () () (scenario_world t))"

definition scenario_finished :: "bool \<Rightarrow> world" where
  "scenario_finished t =
     snd (snd (ForecastingTrainingTask_call scenario_env (scenario_task t) (scenario_constructed t)))"

definition scenario_failed :: world where
  "scenario_failed =
     snd (snd (ForecastingTrainingTask_call failing_env (scenario_task False) (scenario_constructed False)))"

section \<open>Decimal rendering is injective\<close>

lemma digit_inj: "a < 10 \<Longrightarrow> b < 10 \<Longrightarrow> digit a = digit b \<Longrightarrow> a = b"
proof -
  assume a: "a < 10" and b: "b < 10" and e: "digit a = digit b"
  from a have a': "a \<in> {0, 1, 2, 3, 4, 5, 6, 7, 8, 9}" by auto
  from b have b': "b \<in> {0, 1, 2, 3, 4, 5, 6, 7, 8, 9}" by auto
  from a' b' e show "a = b" by (auto simp: digit_def)
qed

lemma str_nat_not_Nil: "str_nat n \<noteq> []" "[] \<noteq> str_nat n"
  by (subst str_nat.simps, simp)+

lemma str_nat_inj: "str_nat a = str_nat b \<Longrightarrow> a = b"
proof (induction a arbitrary: b rule: str_nat.induct)
  case (1 n)
  show ?case
  proof (cases "n < 10")
    case small: True
    show ?thesis
    proof (cases "b < 10")
      case True
      with small "1.prems" show ?thesis
        by (simp add: str_nat.simps [of n] str_nat.simps [of b] digit_inj)
    next
      case False
      with small "1.prems" show ?thesis
        by (simp add: str_nat.simps [of n] str_nat.simps [of b] str_nat_not_Nil)
    qed
  next
    case big: False
    show ?thesis
    proof (cases "b < 10")
      case True
      with big "1.prems" show ?thesis
        by (simp add: str_nat.simps [of n] str_nat.simps [of b] str_nat_not_Nil)
    next
      case False
      with big "1.prems" have eq: "str_nat (n div 10) = str_nat (b div 10)"
        and d: "digit (n mod 10) = digit (b mod 10)"
        by (simp_all add: str_nat.simps [of n] str_nat.simps [of b])
      from "1.IH" [OF big eq] have "n div 10 = b div 10" .
      moreover from d have "n mod 10 = b mod 10" by (simp add: digit_inj)
      ultimately show ?thesis by (metis div_mult_mod_eq)
    qed
  qed
qed

lemma digit_not_minus: "d < 10 \<Longrightarrow> digit d \<noteq> CHR ''-''"
proof
  assume d: "d < 10" and e: "digit d = CHR ''-''"
  from d have "d \<in> {0, 1, 2, 3, 4, 5, 6, 7, 8, 9}" by auto
  with e show False by (auto simp: digit_def)
qed

lemma str_nat_no_minus: "CHR ''-'' \<notin> set (str_nat n)"
proof (induction n rule: str_nat.induct)
  case (1 n)
  show ?case
  proof (cases "n < 10")
    case True
    then show ?thesis using digit_not_minus [of n] by (auto simp: str_nat.simps [of n])
  next
    case False
    with "1.IH" show ?thesis
      using digit_not_minus [of "n mod 10"] by (auto simp: str_nat.simps [of n])
  qed
qed

lemma str_inj: "str i = str j \<Longrightarrow> i = j"
proof -
  assume e: "str i = str j"
  have hd: "\<And>n. hd (str_nat n) \<noteq> CHR ''-''"
    using str_nat_no_minus str_nat_not_Nil by (metis hd_in_set)
  show "i = j"
  proof (cases "i < 0"; cases "j < 0")
    assume "i < 0" "j < 0"
    with e have "str_nat (nat (- i)) = str_nat (nat (- j))" by (simp add: str_def)
    then have "nat (- i) = nat (- j)" by (rule str_nat_inj)
    with \<open>i < 0\<close> \<open>j < 0\<close> show ?thesis by simp
  next
    assume "i < 0" "\<not> j < 0"
    with e have "CHR ''-'' # str_nat (nat (- i)) = str_nat (nat j)" by (simp add: str_def)
    then have "hd (str_nat (nat j)) = CHR ''-''" by (metis list.sel(1))
    with hd show ?thesis by blast
  next
    assume "\<not> i < 0" "j < 0"
    with e have "str_nat (nat i) = CHR ''-'' # str_nat (nat (- j))" by (simp add: str_def)
    then have "hd (str_nat (nat i)) = CHR ''-''" by (metis list.sel(1))
    with hd show ?thesis by blast
  next
    assume "\<not> i < 0" "\<not> j < 0"
    with e have "str_nat (nat i) = str_nat (nat j)" by (simp add: str_def)
    then have "nat i = nat j" by (rule str_nat_inj)
    with \<open>\<not> i < 0\<close> \<open>\<not> j < 0\<close> show ?thesis by simp
  qed
qed

section \<open>Effects of one evaluation of the objective\<close>

lemma objective_configs:
  "TrainingTrialObjective_call env self k w = (r, w') \<Longrightarrow>
   task_configs w' = (task_configs w)
     (''learning_rate'' \<mapsto> PFloat (suggest_float env k ''lr'' (1 / 10 ^ 7) (1 / 10) True),
      ''trial_id'' \<mapsto> PStr (''tid_'' @ str k))"
  by (auto simp: TrainingTrialObjective_call_def Let_def split: sum.splits option.splits)

lemma objective_quiet:
  "TrainingTrialObjective_call env self k w = (r, w') \<Longrightarrow>
   rpc_calls w' = rpc_calls w \<and> warn_log w' = warn_log w"
  by (auto simp: TrainingTrialObjective_call_def Let_def split: sum.splits option.splits)

lemma objective_Inr:
  "TrainingTrialObjective_call env self k w = (Inr loss, w') \<Longrightarrow>
   stdout w' = stdout w @ [(k, loss)] \<and>
   executor_starts w' = executor_starts w @ [(task_configs w', Inr loss)] \<and>
   (\<exists>m inner. task_configs w ''model_id'' = Some m \<and> task_trial_map w m = Some inner \<and>
      task_trial_map w' = (task_trial_map w)(m \<mapsto> inner(PInt k \<mapsto> os_getpid env)))"
  by (auto simp: TrainingTrialObjective_call_def Let_def split: sum.splits option.splits)

lemma objective_Inl:
  "TrainingTrialObjective_call env self k w = (Inl e, w') \<Longrightarrow>
   stdout w' = stdout w \<and>
   (executor_starts w' = executor_starts w \<or>
    executor_starts w' = executor_starts w @ [(task_configs w', Inl e)])"
  by (auto simp: TrainingTrialObjective_call_def Let_def split: sum.splits option.splits)

lemma objective_registry:
  "TrainingTrialObjective_call env self k w = (r, w') \<Longrightarrow>
   task_trial_map w' = task_trial_map w \<or>
   (\<exists>m inner. task_configs w ''model_id'' = Some m \<and> task_trial_map w m = Some inner \<and>
      task_trial_map w' = (task_trial_map w)(m \<mapsto> inner(PInt k \<mapsto> os_getpid env)))"
  by (fastforce simp: TrainingTrialObjective_call_def Let_def split: sum.splits option.splits)

section \<open>Effects of a run of the search driver\<close>

lemma optimize_Suc_cases:
  assumes "optimize obj (Suc n) st w = (res, st', w')"
  obtains (raised) e where "obj (next_trial_id st) w = (Inl e, w')" "res = Some e"
      "st' = st\<lparr>next_trial_id := next_trial_id st + 1\<rparr>"
  | (returned) loss w1 where "obj (next_trial_id st) w = (Inr loss, w1)"
      "optimize obj n (st\<lparr>next_trial_id := next_trial_id st + 1,
                          trials := trials st @ [(next_trial_id st, loss)]\<rparr>) w1 = (res, st', w')"
proof (cases "obj (next_trial_id st) w")
  case (Pair r w1)
  show thesis
  proof (cases r)
    case (Inl e)
    with Pair assms show thesis by (intro raised [of e]) (auto simp: Let_def)
  next
    case (Inr loss)
    with Pair assms show thesis by (intro returned [of loss w1]) (auto simp: Let_def)
  qed
qed

lemma optimize_preserves:
  assumes step: "\<And>k w r w'. obj k w = (r, w') \<Longrightarrow> R w w'"
      and refl: "\<And>w. R w w"
      and trans: "\<And>a b c. R a b \<Longrightarrow> R b c \<Longrightarrow> R a c"
  shows "optimize obj n st w = (res, st', w') \<Longrightarrow> R w w'"
proof (induction n arbitrary: st w)
  case 0
  then show ?case by (simp add: refl)
next
  case (Suc n)
  from Suc.prems show ?case
  proof (cases rule: optimize_Suc_cases)
    case (raised e)
    then show ?thesis by (auto dest: step)
  next
    case (returned loss w1)
    from step [OF returned(1)] Suc.IH [OF returned(2)] show ?thesis by (rule trans)
  qed
qed

lemma optimize_direction:
  "optimize obj n st w = (res, st', w') \<Longrightarrow> direction st' = direction st"
proof (induction n arbitrary: st w)
  case 0
  then show ?case by simp
next
  case (Suc n)
  from Suc.prems show ?case
  proof (cases rule: optimize_Suc_cases)
    case (raised e)
    then show ?thesis by simp
  next
    case (returned loss w1)
    from Suc.IH [OF returned(2)] show ?thesis by simp
  qed
qed

lemma optimize_quiet:
  assumes "optimize (TrainingTrialObjective_call env self) n st w = (res, st', w')"
  shows "rpc_calls w' = rpc_calls w \<and> warn_log w' = warn_log w \<and>
         task_configs w' ''model_id'' = task_configs w ''model_id''"
proof (rule optimize_preserves [where R = "\<lambda>a b. rpc_calls b = rpc_calls a \<and>
          warn_log b = warn_log a \<and> task_configs b ''model_id'' = task_configs a ''model_id''",
        OF _ _ _ assms])
  fix k w r w'
  assume "TrainingTrialObjective_call env self k w = (r, w')"
  then show "rpc_calls w' = rpc_calls w \<and> warn_log w' = warn_log w \<and>
         task_configs w' ''model_id'' = task_configs w ''model_id''"
    using objective_quiet [of env self k w r w'] objective_configs [of env self k w r w']
    by simp
qed auto

lemma registers_only_refl: "registers_only pid reg reg"
  by (simp add: registers_only_def)

lemma registers_only_None: "registers_only pid a b \<Longrightarrow> b m = None \<Longrightarrow> a m = None"
  by (simp add: registers_only_def)

lemma registers_only_Some:
  "registers_only pid a b \<Longrightarrow> b m = Some ib \<Longrightarrow>
   \<exists>ia. a m = Some ia \<and> (\<forall>key. ib key = ia key \<or> ib key = Some pid)"
  by (simp add: registers_only_def)

lemma registers_only_trans:
  assumes ab: "registers_only pid a b" and bc: "registers_only pid b c"
  shows "registers_only pid a c"
  unfolding registers_only_def
proof (intro allI conjI impI)
  fix m
  assume "c m = None"
  then show "a m = None"
    using registers_only_None [OF bc] registers_only_None [OF ab] by blast
next
  fix m ic
  assume "c m = Some ic"
  from registers_only_Some [OF bc this] obtain ib where ib: "b m = Some ib"
    "\<forall>key. ic key = ib key \<or> ic key = Some pid" by blast
  from registers_only_Some [OF ab ib(1)] obtain ia where ia: "a m = Some ia"
    "\<forall>key. ib key = ia key \<or> ib key = Some pid" by blast
  have "\<forall>key. ic key = ia key \<or> ic key = Some pid"
    using ib(2) ia(2) by metis
  with ia(1) show "\<exists>inner. a m = Some inner \<and> (\<forall>key. ic key = inner key \<or> ic key = Some pid)"
    by blast
qed

lemma registers_only_upd:
  "reg m = Some inner \<Longrightarrow> registers_only pid reg (reg(m \<mapsto> inner(key \<mapsto> pid)))"
  by (auto simp: registers_only_def)

lemma objective_registers_only:
  assumes "TrainingTrialObjective_call env self k w = (r, w')"
  shows "registers_only (os_getpid env) (task_trial_map w) (task_trial_map w')"
  using objective_registry [OF assms]
  by (auto simp: registers_only_refl registers_only_upd)

lemma optimize_registers_only:
  assumes "optimize (TrainingTrialObjective_call env self) n st w = (res, st', w')"
  shows "registers_only (os_getpid env) (task_trial_map w) (task_trial_map w')"
  by (rule optimize_preserves [where R = "\<lambda>a b. registers_only (os_getpid env)
        (task_trial_map a) (task_trial_map b)", OF _ _ _ assms])
     (auto intro: objective_registers_only registers_only_refl registers_only_trans)

lemma optimize_starts:
  "optimize (TrainingTrialObjective_call env self) n st w = (res, st', w') \<Longrightarrow>
   \<exists>evs. executor_starts w' = executor_starts w @ evs \<and> length evs \<le> n \<and>
     (\<forall>c e. (c, Inl e) \<in> set evs \<longrightarrow> res = Some e) \<and>
     (\<forall>c r. (c, r) \<in> set evs \<longrightarrow>
        (\<exists>k. c ''learning_rate'' =
               Some (PFloat (suggest_float env k ''lr'' (1 / 10 ^ 7) (1 / 10) True))))"
proof (induction n arbitrary: st w)
  case 0
  then show ?case by simp
next
  case (Suc n)
  from Suc.prems show ?case
  proof (cases rule: optimize_Suc_cases)
    case (raised e)
    from objective_Inl [OF raised(1)] objective_configs [OF raised(1)] raised(2)
    show ?thesis by (elim conjE disjE) (rule exI [of _ "[]"], simp, rule exI [of _ "[(task_configs w', Inl e)]"], auto)
  next
    case (returned loss w1)
    from Suc.IH [OF returned(2)] obtain evs where evs:
      "executor_starts w' = executor_starts w1 @ evs" "length evs \<le> n"
      "\<forall>c e. (c, Inl e) \<in> set evs \<longrightarrow> res = Some e"
      "\<forall>c r. (c, r) \<in> set evs \<longrightarrow>
        (\<exists>k. c ''learning_rate'' =
               Some (PFloat (suggest_float env k ''lr'' (1 / 10 ^ 7) (1 / 10) True)))"
      by blast
    from objective_Inr [OF returned(1)] objective_configs [OF returned(1)]
    have w1: "executor_starts w1 = executor_starts w @ [(task_configs w1, Inr loss)]"
      and lr: "task_configs w1 ''learning_rate'' =
         Some (PFloat (suggest_float env (next_trial_id st) ''lr'' (1 / 10 ^ 7) (1 / 10) True))"
      by simp_all
    show ?thesis
      by (rule exI [of _ "(task_configs w1, Inr loss) # evs"]) (use evs w1 lr in auto)
  qed
qed

lemma foldl_keep_best_first_min:
  "\<exists>i<length (t # ts). foldl (keep_best MINIMIZE) t ts = (t # ts) ! i \<and>
      (\<forall>j<length (t # ts). snd ((t # ts) ! i) \<le> snd ((t # ts) ! j)) \<and>
      (\<forall>j<i. snd ((t # ts) ! i) < snd ((t # ts) ! j))"
proof (induction ts rule: rev_induct)
  case Nil
  then show ?case by simp
next
  case (snoc x ts)
  let ?xs = "t # ts"
  from snoc obtain i where i: "i < length ?xs" "foldl (keep_best MINIMIZE) t ts = ?xs ! i"
    "\<forall>j<length ?xs. snd (?xs ! i) \<le> snd (?xs ! j)" "\<forall>j<i. snd (?xs ! i) < snd (?xs ! j)"
    by blast
  have app: "t # ts @ [x] = ?xs @ [x]" by simp
  show ?case
  proof (cases "snd x < snd (?xs ! i)")
    case True
    have "foldl (keep_best MINIMIZE) t (ts @ [x]) = (?xs @ [x]) ! length ?xs"
      using True i(2) by (simp add: keep_best_def)
    moreover have "\<forall>j<length (?xs @ [x]). snd x \<le> snd ((?xs @ [x]) ! j)"
    proof (intro allI impI)
      fix j assume "j < length (?xs @ [x])"
      then consider "j < length ?xs" | "j = length ?xs" by fastforce
      then show "snd x \<le> snd ((?xs @ [x]) ! j)"
      proof cases
        case 1
        with i(3) True have "snd x \<le> snd (?xs ! j)" by fastforce
        with 1 show ?thesis by (simp only: nth_append if_True)
      next
        case 2
        then show ?thesis by simp
      qed
    qed
    moreover have "\<forall>j<length ?xs. snd x < snd ((?xs @ [x]) ! j)"
    proof (intro allI impI)
      fix j assume j: "j < length ?xs"
      with i(3) True have "snd x < snd (?xs ! j)" by fastforce
      with j show "snd x < snd ((?xs @ [x]) ! j)" by (simp only: nth_append if_True)
    qed
    ultimately show ?thesis
      unfolding app
      by (intro exI [of _ "length ?xs"]) (simp only: nth_append_length, simp)
  next
    case False
    have "foldl (keep_best MINIMIZE) t (ts @ [x]) = ?xs ! i"
      using False i(2) by (simp add: keep_best_def)
    then have f: "foldl (keep_best MINIMIZE) t (ts @ [x]) = (?xs @ [x]) ! i"
      using i(1) by (simp only: nth_append if_True)
    have ii: "(?xs @ [x]) ! i = ?xs ! i" using i(1) by (simp only: nth_append if_True)
    have "\<forall>j<length (?xs @ [x]). snd (?xs ! i) \<le> snd ((?xs @ [x]) ! j)"
    proof (intro allI impI)
      fix j assume "j < length (?xs @ [x])"
      then consider "j < length ?xs" | "j = length ?xs" by fastforce
      then show "snd (?xs ! i) \<le> snd ((?xs @ [x]) ! j)"
      proof cases
        case 1
        with i(3) have "snd (?xs ! i) \<le> snd (?xs ! j)" by blast
        with 1 show ?thesis by (simp only: nth_append if_True)
      next
        case 2
        with False show ?thesis by (simp add: not_less)
      qed
    qed
    moreover have "\<forall>j<i. snd (?xs ! i) < snd ((?xs @ [x]) ! j)"
    proof (intro allI impI)
      fix j assume j: "j < i"
      with i(4) have "snd (?xs ! i) < snd (?xs ! j)" by blast
      moreover from j i(1) have "j < length ?xs" by simp
      ultimately show "snd (?xs ! i) < snd ((?xs @ [x]) ! j)" by (simp only: nth_append if_True)
    qed
    ultimately show ?thesis
      unfolding app using f ii i(1)
      by (intro exI [of _ i]) (simp only: length_append, simp)
  qed
qed

lemma map_upt_shift:
  "map (\<lambda>i. (k + int i, (l # ls) ! i)) [0..<Suc n] =
   (k, l) # map (\<lambda>i. (k + 1 + int i, ls ! i)) [0..<n]"
  by (simp only: map_upt_Suc) (simp add: add.assoc add.commute)

lemma optimize_completes:
  "optimize (TrainingTrialObjective_call env self) n st w = (None, st', w') \<Longrightarrow>
   \<exists>losses cfgs. length losses = n \<and> length cfgs = n \<and>
     trials st' = trials st @ map (\<lambda>i. (next_trial_id st + int i, losses ! i)) [0..<n] \<and>
     stdout w' = stdout w @ map (\<lambda>i. (next_trial_id st + int i, losses ! i)) [0..<n] \<and>
     executor_starts w' = executor_starts w @ map (\<lambda>i. (cfgs ! i, Inr (losses ! i))) [0..<n] \<and>
     (\<forall>i<n. (cfgs ! i) ''trial_id'' = Some (PStr (''tid_'' @ str (next_trial_id st + int i))))"
proof (induction n arbitrary: st w)
  case 0
  then show ?case by simp
next
  case (Suc n)
  from Suc.prems show ?case
  proof (cases rule: optimize_Suc_cases)
    case (raised e)
    then show ?thesis by simp
  next
    case (returned loss w1)
    let ?k = "next_trial_id st"
    from Suc.IH [OF returned(2)] obtain losses cfgs where ih:
      "length losses = n" "length cfgs = n"
      "trials st' = (trials st @ [(?k, loss)]) @ map (\<lambda>i. (?k + 1 + int i, losses ! i)) [0..<n]"
      "stdout w' = stdout w1 @ map (\<lambda>i. (?k + 1 + int i, losses ! i)) [0..<n]"
      "executor_starts w' = executor_starts w1 @ map (\<lambda>i. (cfgs ! i, Inr (losses ! i))) [0..<n]"
      "\<forall>i<n. (cfgs ! i) ''trial_id'' = Some (PStr (''tid_'' @ str (?k + 1 + int i)))"
      by auto
    from objective_Inr [OF returned(1)] objective_configs [OF returned(1)]
    have w1: "stdout w1 = stdout w @ [(?k, loss)]"
      "executor_starts w1 = executor_starts w @ [(task_configs w1, Inr loss)]"
      "task_configs w1 ''trial_id'' = Some (PStr (''tid_'' @ str ?k))"
      by simp_all
    have starts: "map (\<lambda>i. ((task_configs w1 # cfgs) ! i, Inr ((loss # losses) ! i) :: exn + real)) [0..<Suc n]
        = (task_configs w1, Inr loss) # map (\<lambda>i. (cfgs ! i, Inr (losses ! i))) [0..<n]"
      by (simp only: map_upt_Suc) simp
    have ids: "\<forall>i<Suc n. ((task_configs w1 # cfgs) ! i) ''trial_id''
        = Some (PStr (''tid_'' @ str (?k + int i)))"
    proof (intro allI impI)
      fix i assume "i < Suc n"
      show "((task_configs w1 # cfgs) ! i) ''trial_id'' = Some (PStr (''tid_'' @ str (?k + int i)))"
      proof (cases i)
        case 0
        with w1(3) show ?thesis by simp
      next
        case (Suc j)
        with \<open>i < Suc n\<close> ih(6)
        have cj: "(cfgs ! j) ''trial_id'' = Some (PStr (''tid_'' @ str (?k + 1 + int j)))"
          by simp
        from Suc have e: "?k + int i = ?k + 1 + int j" by simp
        from Suc have nth: "(task_configs w1 # cfgs) ! i = cfgs ! j" by simp
        show ?thesis unfolding e nth by (rule cj)
      qed
    qed
    show ?thesis
      apply (rule exI [of _ "loss # losses"])
      apply (rule exI [of _ "task_configs w1 # cfgs"])
      apply (simp only: map_upt_shift starts)
      using ih w1 ids apply simp
      done
  qed
qed

lemma optimize_completes_registry:
  "optimize (TrainingTrialObjective_call env self) n st w = (None, st', w') \<Longrightarrow> i < n \<Longrightarrow>
   \<exists>m inner'. task_configs w ''model_id'' = Some m \<and> task_trial_map w' m = Some inner' \<and>
      inner' (PInt (next_trial_id st + int i)) = Some (os_getpid env)"
proof (induction n arbitrary: st w i)
  case 0
  then show ?case by simp
next
  case (Suc n)
  from Suc.prems(1) show ?case
  proof (cases rule: optimize_Suc_cases)
    case (raised e)
    then show ?thesis by simp
  next
    case (returned loss w1)
    let ?k = "next_trial_id st"
    from objective_Inr [OF returned(1)] obtain m inner where m:
      "task_configs w ''model_id'' = Some m" "task_trial_map w m = Some inner"
      "task_trial_map w1 = (task_trial_map w)(m \<mapsto> inner(PInt ?k \<mapsto> os_getpid env))"
      by blast
    from objective_configs [OF returned(1)] m(1)
    have m1: "task_configs w1 ''model_id'' = Some m" by simp
    show ?thesis
    proof (cases i)
      case 0
      from m(3) have "task_trial_map w1 m = Some (inner(PInt ?k \<mapsto> os_getpid env))" by simp
      moreover note optimize_registers_only [OF returned(2)]
      ultimately obtain inner' where "task_trial_map w' m = Some inner'"
        "inner' (PInt ?k) = Some (os_getpid env)"
        unfolding registers_only_def
        by (metis fun_upd_same option.exhaust option.distinct(1) option.inject)
      with m(1) 0 show ?thesis by simp
    next
      case (Suc j)
      with Suc.prems(2) have "j < n" by simp
      from Suc.IH [OF returned(2) this] m1 obtain inner' where
        "task_trial_map w' m = Some inner'" "inner' (PInt (?k + 1 + int j)) = Some (os_getpid env)"
        by auto
      moreover from Suc have "?k + int i = ?k + 1 + int j" by simp
      ultimately show ?thesis using m(1) by (simp add: add.assoc)
    qed
  qed
qed

section \<open>Effects of the constructor and of an invocation\<close>

lemma call_cases:
  assumes "ForecastingTrainingTask_call env self w = (r, self', w')"
  obtains w1 where "call_body env self w = (r, self', w1)"
    "w' = (case r of Inl e \<Rightarrow> w1\<lparr>warn_log := warn_log w1 @ [e]\<rparr> | Inr u \<Rightarrow> w1)"
proof (cases "call_body env self w")
  case (fields r0 s0 w0)
  with assms show thesis
    by (intro that [of w0]) (auto simp: ForecastingTrainingTask_call_def split: sum.splits)
qed

lemma call_body_tuning_cases:
  assumes "call_body env self w = (r, self', w')" "truthy (tuning self)"
  obtains (no_study) "study self = None" "r = Inl (AttributeError ''study'')" "w' = w"
  | (raised) st e st' where "study self = Some st"
      "optimize (TrainingTrialObjective_call env
          \<lparr>obj_model_configs = model_configs self, obj_dataset = dataset self\<rparr>) 20 st w
        = (Some e, st', w')" "r = Inl e"
  | (no_best) st st' where "study self = Some st"
      "optimize (TrainingTrialObjective_call env
          \<lparr>obj_model_configs = model_configs self, obj_dataset = dataset self\<rparr>) 20 st w
        = (None, st', w')" "best_trial st' = None"
      "r = Inl (ValueError ''No trials are completed yet.'')"
  | (reported) st st' w1 b where "study self = Some st"
      "optimize (TrainingTrialObjective_call env
          \<lparr>obj_model_configs = model_configs self, obj_dataset = dataset self\<rparr>) 20 st w
        = (None, st', w1)" "best_trial st' = Some b"
      "w' = w1\<lparr>rpc_calls := rpc_calls w1 @ [(model_id self, FINISHED, ''tid_'' @ str (fst b))]\<rparr>"
      "r = (case update_model_state env (model_id self) FINISHED (''tid_'' @ str (fst b)) of
              Some e \<Rightarrow> Inl e | None \<Rightarrow> Inr ())"
proof (cases "study self")
  case None
  with assms show thesis by (intro no_study) (auto simp: call_body_def)
next
  case (Some st)
  let ?run = "optimize (TrainingTrialObjective_call env
          \<lparr>obj_model_configs = model_configs self, obj_dataset = dataset self\<rparr>) 20 st w"
  obtain res st' w1 where run: "?run = (res, st', w1)" by (cases ?run) auto
  show thesis
  proof (cases res)
    case (Some e)
    with assms \<open>study self = Some st\<close> run show thesis
      by (intro raised [of st e st']) (auto simp: call_body_def)
  next
    case None
    show thesis
    proof (cases "best_trial st'")
      case no: None
      with None assms \<open>study self = Some st\<close> run show thesis
        by (intro no_best [of st st']) (auto simp: call_body_def)
    next
      case (Some b)
      with None assms \<open>study self = Some st\<close> run show thesis
        by (intro reported [of st st' w1 b]) (auto simp: call_body_def Let_def split: option.splits)
    qed
  qed
qed

lemma call_body_direct_cases:
  assumes "call_body env self w = (r, self', w')" "\<not> truthy (tuning self)"
  obtains (no_trial) "trial self = None" "r = Inl (AttributeError ''trial'')" "w' = w"
  | (raised) tr e where "trial self = Some tr" "trial_start env tr (task_configs w) = Inl e"
      "r = Inl e" "w' = w\<lparr>executor_starts := executor_starts w @ [(task_configs w, Inl e)]\<rparr>"
  | (no_id) tr loss where "trial self = Some tr"
      "trial_start env tr (task_configs w) = Inr loss" "default_trial_id self = None"
      "r = Inl (AttributeError ''default_trial_id'')"
      "w' = w\<lparr>executor_starts := executor_starts w @ [(task_configs w, Inr loss)]\<rparr>"
  | (reported) tr loss tid where "trial self = Some tr"
      "trial_start env tr (task_configs w) = Inr loss" "default_trial_id self = Some tid"
      "w' = w\<lparr>executor_starts := executor_starts w @ [(task_configs w, Inr loss)],
               rpc_calls := rpc_calls w @ [(model_id self, FINISHED, tid)]\<rparr>"
      "r = (case update_model_state env (model_id self) FINISHED tid of
              Some e \<Rightarrow> Inl e | None \<Rightarrow> Inr ())"
proof (cases "trial self")
  case None
  with assms show thesis by (intro no_trial) (auto simp: call_body_def)
next
  case (Some tr)
  show thesis
  proof (cases "trial_start env tr (task_configs w)")
    case (Inl e)
    with Some assms show thesis
      by (intro raised [of tr e]) (auto simp: call_body_def Let_def)
  next
    case (Inr loss)
    show thesis
    proof (cases "default_trial_id self")
      case None
      with Inr Some assms show thesis
        by (intro no_id [of tr loss]) (auto simp: call_body_def Let_def)
    next
      case tid: (Some tid)
      with Inr Some assms show thesis
        by (intro reported [of tr loss tid]) (auto simp: call_body_def Let_def split: option.splits)
    qed
  qed
qed

lemma init_tuning:
  assumes "ForecastingTrainingTask_init env mc md ds w0 = (Inr self, w1)"
      and "task_configs w0 ''tuning'' = Some tv" "truthy tv"
  shows "w1 = w0" "study self = Some (create_study MINIMIZE)" "tuning self = tv"
    "task_configs w0 ''model_id'' = Some (model_id self)"
    "model_configs self = mc" "dataset self = ds"
  using assms
  by (auto simp: ForecastingTrainingTask_init_def Let_def split: option.splits)

lemma init_direct:
  assumes "ForecastingTrainingTask_init env mc md ds w0 = (Inr self, w1)"
      and "task_configs w0 ''tuning'' = Some tv" "\<not> truthy tv"
  shows "\<exists>inner. task_trial_map w0 (model_id self) = Some inner \<and>
           w1 = w0\<lparr>task_configs := (task_configs w0)(''trial_id'' \<mapsto> PStr ''tid_0''),
                   task_trial_map := (task_trial_map w0)
                      (model_id self \<mapsto> inner(PStr ''tid_0'' \<mapsto> os_getpid env))\<rparr>"
    "\<exists>tr. trial self = Some tr" "default_trial_id self = Some ''tid_0''" "tuning self = tv"
    "task_configs w0 ''model_id'' = Some (model_id self)"
  using assms
  by (auto simp: ForecastingTrainingTask_init_def Let_def split: option.splits sum.splits)

lemma init_rpc:
  "rpc_calls (snd (ForecastingTrainingTask_init env mc md ds w0)) = rpc_calls w0"
  by (auto simp: ForecastingTrainingTask_init_def Let_def split: option.splits sum.splits)

lemma call_body_effects:
  assumes body: "call_body env self w = (r, self', w1)"
  shows "warn_log w1 = warn_log w"
    and "\<exists>new. rpc_calls w1 = rpc_calls w @ new \<and> length new \<le> 1 \<and>
           (\<forall>c\<in>set new. fst c = model_id self \<and> fst (snd c) = FINISHED)"
    and "\<exists>evs. executor_starts w1 = executor_starts w @ evs \<and>
           length evs \<le> (if truthy (tuning self) then 20 else 1)"
    and "registers_only (os_getpid env) (task_trial_map w) (task_trial_map w1)"
proof -
  have "warn_log w1 = warn_log w \<and>
    (\<exists>new. rpc_calls w1 = rpc_calls w @ new \<and> length new \<le> 1 \<and>
           (\<forall>c\<in>set new. fst c = model_id self \<and> fst (snd c) = FINISHED)) \<and>
    (\<exists>evs. executor_starts w1 = executor_starts w @ evs \<and>
           length evs \<le> (if truthy (tuning self) then 20 else 1)) \<and>
    registers_only (os_getpid env) (task_trial_map w) (task_trial_map w1)"
  proof (cases "truthy (tuning self)")
    case True
    have run: "warn_log w2 = warn_log w \<and> rpc_calls w2 = rpc_calls w \<and>
        (\<exists>evs. executor_starts w2 = executor_starts w @ evs \<and> length evs \<le> 20) \<and>
        registers_only (os_getpid env) (task_trial_map w) (task_trial_map w2)"
      if opt: "optimize (TrainingTrialObjective_call env
          \<lparr>obj_model_configs = model_configs self, obj_dataset = dataset self\<rparr>) 20 st w
        = (res, st', w2)" for st res st' w2
      using optimize_starts [OF opt] optimize_quiet [OF opt] optimize_registers_only [OF opt]
      by blast
    from body True show ?thesis
    proof (cases rule: call_body_tuning_cases)
      case no_study
      then show ?thesis by (simp add: registers_only_refl)
    next
      case (raised st e st')
      from run [OF raised(2)] True show ?thesis by simp
    next
      case (no_best st st')
      from run [OF no_best(2)] True show ?thesis by simp
    next
      case (reported st st' w2 b)
      from run [OF reported(2)] True reported(4) show ?thesis by simp
    qed
  next
    case False
    from body False show ?thesis
      by (cases rule: call_body_direct_cases) (simp_all add: registers_only_refl)
  qed
  then show "warn_log w1 = warn_log w"
    and "\<exists>new. rpc_calls w1 = rpc_calls w @ new \<and> length new \<le> 1 \<and>
           (\<forall>c\<in>set new. fst c = model_id self \<and> fst (snd c) = FINISHED)"
    and "\<exists>evs. executor_starts w1 = executor_starts w @ evs \<and>
           length evs \<le> (if truthy (tuning self) then 20 else 1)"
    and "registers_only (os_getpid env) (task_trial_map w) (task_trial_map w1)"
    by blast+
qed

lemma best_trial_first_min:
  assumes "direction st = MINIMIZE" "trials st \<noteq> []"
  shows "\<exists>i<length (trials st). best_trial st = Some (trials st ! i) \<and>
           (\<forall>j<length (trials st). snd (trials st ! i) \<le> snd (trials st ! j)) \<and>
           (\<forall>j<i. snd (trials st ! i) < snd (trials st ! j))"
proof -
  from assms(2) obtain t ts where ts: "trials st = t # ts" by (cases "trials st") auto
  then have "best_trial st = Some (foldl (keep_best MINIMIZE) t ts)"
    by (simp add: best_trial_def assms(1))
  with foldl_keep_best_first_min [of t ts] show ?thesis unfolding ts by auto
qed

lemma tids_distinct: "distinct (map (\<lambda>k. ''tid_'' @ str (int k)) [0..<n])"
proof -
  have "inj_on (\<lambda>k. ''tid_'' @ str (int k)) (set [0..<n])"
    by (rule inj_onI) (auto dest: str_inj)
  then show ?thesis by (simp add: distinct_map)
qed

lemma direct_call_keeps_dictionaries:
  assumes "\<not> truthy (tuning self)"
  shows "task_configs (snd (snd (ForecastingTrainingTask_call env self w))) = task_configs w \<and>
         task_trial_map (snd (snd (ForecastingTrainingTask_call env self w))) = task_trial_map w"
proof -
  obtain r self' w' where call: "ForecastingTrainingTask_call env self w = (r, self', w')"
    by (cases "ForecastingTrainingTask_call env self w") auto
  then obtain w1 where body: "call_body env self w = (r, self', w1)"
    and w': "w' = (case r of Inl e \<Rightarrow> w1\<lparr>warn_log := warn_log w1 @ [e]\<rparr> | Inr u \<Rightarrow> w1)"
    by (rule call_cases)
  from body assms have "task_configs w1 = task_configs w \<and> task_trial_map w1 = task_trial_map w"
    by (cases rule: call_body_direct_cases) simp_all
  with w' call show ?thesis by (simp split: sum.splits)
qed

section \<open>The scenario, evaluated\<close>

lemma scenario_objective_step:
  assumes "task_configs w ''model_id'' = Some m" "task_trial_map w m = Some inner"
  shows "TrainingTrialObjective_call scenario_env obj k w =
     (Inr (scenario_loss ((task_configs w)(''learning_rate'' \<mapsto> PFloat (1 / 10 ^ 7),
                                           ''trial_id'' \<mapsto> PStr (''tid_'' @ str k)))),
      w\<lparr>task_configs := (task_configs w)(''learning_rate'' \<mapsto> PFloat (1 / 10 ^ 7),
                                           ''trial_id'' \<mapsto> PStr (''tid_'' @ str k)),
         task_trial_map := (task_trial_map w)(m \<mapsto> inner(PInt k \<mapsto> 4242)),
         executor_starts := executor_starts w @
           [((task_configs w)(''learning_rate'' \<mapsto> PFloat (1 / 10 ^ 7),
                              ''trial_id'' \<mapsto> PStr (''tid_'' @ str k)),
             Inr (scenario_loss ((task_configs w)(''learning_rate'' \<mapsto> PFloat (1 / 10 ^ 7),
                                           ''trial_id'' \<mapsto> PStr (''tid_'' @ str k)))))],
         stdout := stdout w @
           [(k, scenario_loss ((task_configs w)(''learning_rate'' \<mapsto> PFloat (1 / 10 ^ 7),
                                           ''trial_id'' \<mapsto> PStr (''tid_'' @ str k))))]\<rparr>)"
  using assms by (simp add: TrainingTrialObjective_call_def scenario_env_def Let_def)

lemma scenario_never_raises:
  "task_configs w ''model_id'' = Some m \<Longrightarrow> task_trial_map w m \<noteq> None \<Longrightarrow>
   fst (optimize (TrainingTrialObjective_call scenario_env obj) n st w) = None"
proof (induction n arbitrary: st w)
  case 0
  then show ?case by simp
next
  case (Suc n)
  from Suc.prems(2) obtain inner where inner: "task_trial_map w m = Some inner" by auto
  note step = scenario_objective_step [OF Suc.prems(1) inner, of obj "next_trial_id st"]
  show ?case
    unfolding optimize.simps Let_def step
    by (simp, rule Suc.IH) (simp_all add: Suc.prems(1))
qed

lemma scenario_starts:
  assumes "optimize (TrainingTrialObjective_call scenario_env obj) n st w = (res, st', w')"
  shows "\<exists>evs. executor_starts w' = executor_starts w @ evs \<and>
           (\<forall>ev\<in>set evs. snd ev = Inr (scenario_loss (fst ev)))"
proof (rule optimize_preserves [where R = "\<lambda>a b. \<exists>evs. executor_starts b = executor_starts a @ evs \<and>
           (\<forall>ev\<in>set evs. snd ev = Inr (scenario_loss (fst ev)))", OF _ _ _ assms])
  fix k w r w'
  assume "TrainingTrialObjective_call scenario_env obj k w = (r, w')"
  then have "executor_starts w' = executor_starts w \<or>
     (\<exists>c. executor_starts w' = executor_starts w @ [(c, Inr (scenario_loss c))])"
    by (auto simp: TrainingTrialObjective_call_def scenario_env_def Let_def
             split: option.splits)
  then show "\<exists>evs. executor_starts w' = executor_starts w @ evs \<and>
           (\<forall>ev\<in>set evs. snd ev = Inr (scenario_loss (fst ev)))"
  proof
    assume "executor_starts w' = executor_starts w"
    then show ?thesis by (intro exI [of _ "[]"]) simp
  next
    assume "\<exists>c. executor_starts w' = executor_starts w @ [(c, Inr (scenario_loss c))]"
    then obtain c where "executor_starts w' = executor_starts w @ [(c, Inr (scenario_loss c))]" ..
    then show ?thesis by (intro exI [of _ "[(c, Inr (scenario_loss c))]"]) simp
  qed
next
  fix w :: world
  show "\<exists>evs. executor_starts w = executor_starts w @ evs \<and>
           (\<forall>ev\<in>set evs. snd ev = Inr (scenario_loss (fst ev)))"
    by (intro exI [of _ "[]"]) simp
next
  fix a b c :: world
  assume "\<exists>evs. executor_starts b = executor_starts a @ evs \<and>
           (\<forall>ev\<in>set evs. snd ev = Inr (scenario_loss (fst ev)))"
    and "\<exists>evs. executor_starts c = executor_starts b @ evs \<and>
           (\<forall>ev\<in>set evs. snd ev = Inr (scenario_loss (fst ev)))"
  then obtain e1 e2 where "executor_starts b = executor_starts a @ e1"
    "\<forall>ev\<in>set e1. snd ev = Inr (scenario_loss (fst ev))"
    "executor_starts c = executor_starts b @ e2"
    "\<forall>ev\<in>set e2. snd ev = Inr (scenario_loss (fst ev))" by blast
  then show "\<exists>evs. executor_starts c = executor_starts a @ evs \<and>
           (\<forall>ev\<in>set evs. snd ev = Inr (scenario_loss (fst ev)))"
    by (intro exI [of _ "e1 @ e2"]) auto
qed

lemma scenario_init:
  "ForecastingTrainingTask_init scenario_env () () () (scenario_world t)
     = (Inr (scenario_task t), scenario_constructed t)"
  "ForecastingTrainingTask_init failing_env () () () (scenario_world t)
     = (Inr (scenario_task t), scenario_constructed t)"
  by (cases t; simp add: ForecastingTrainingTask_init_def scenario_env_def failing_env_def
        scenario_world_def scenario_task_def scenario_constructed_def)+

lemma scenario_constructed_direct:
  "scenario_constructed False =
     (scenario_world False)\<lparr>task_configs := (task_configs (scenario_world False))(''trial_id'' \<mapsto> PStr ''tid_0''),
         task_trial_map := (task_trial_map (scenario_world False))(PStr ''m1'' \<mapsto> [PStr ''tid_0'' \<mapsto> 4242])\<rparr>"
  by (simp add: ForecastingTrainingTask_init_def scenario_env_def
        scenario_world_def scenario_constructed_def)

lemma scenario_constructed_tuning: "scenario_constructed True = scenario_world True"
  by (simp add: ForecastingTrainingTask_init_def scenario_env_def
        scenario_world_def scenario_constructed_def)

lemma scenario_direct_call:
  "ForecastingTrainingTask_call scenario_env (scenario_task False) (scenario_constructed False)
     = (Inr (), scenario_task False, scenario_finished False)"
  "rpc_calls (scenario_finished False) = [(PStr ''m1'', FINISHED, ''tid_0'')]"
  "task_trial_map (scenario_finished False) = task_trial_map (scenario_constructed False)"
  by (simp_all add: scenario_finished_def ForecastingTrainingTask_call_def call_body_def
        scenario_task_def scenario_env_def scenario_constructed_direct scenario_world_def)

lemma scenario_failed_call:
  "ForecastingTrainingTask_call failing_env (scenario_task False) (scenario_constructed False)
     = (Inl (OtherError ''training failed''), scenario_task False, scenario_failed)"
  "rpc_calls scenario_failed = []"
  "warn_log scenario_failed = [OtherError ''training failed'']"
  "executor_starts scenario_failed = executor_starts (scenario_constructed False) @
     [(task_configs (scenario_constructed False), Inl (OtherError ''training failed''))]"
  "call_body failing_env (scenario_task False) (scenario_constructed False)
     = (Inl (OtherError ''training failed''), scenario_task False,
        (scenario_constructed False)\<lparr>executor_starts := executor_starts (scenario_constructed False) @
     [(task_configs (scenario_constructed False), Inl (OtherError ''training failed''))]\<rparr>)"
  by (simp_all add: scenario_failed_def ForecastingTrainingTask_call_def call_body_def
        scenario_task_def scenario_env_def failing_env_def scenario_constructed_direct scenario_world_def)

lemma scenario_tuning_call:
  "\<exists>st' w' b.
     optimize (TrainingTrialObjective_call scenario_env \<lparr>obj_model_configs = (), obj_dataset = ()\<rparr>)
        20 (create_study MINIMIZE) (scenario_world True) = (None, st', w') \<and>
     best_trial st' = Some b \<and>
     ForecastingTrainingTask_call scenario_env (scenario_task True) (scenario_world True)
       = (Inr (), (scenario_task True)\<lparr>study := Some st'\<rparr>,
          w'\<lparr>rpc_calls := rpc_calls w' @ [(PStr ''m1'', FINISHED, ''tid_'' @ str (fst b))]\<rparr>)"
proof -
  let ?obj = "TrainingTrialObjective_call scenario_env \<lparr>obj_model_configs = (), obj_dataset = ()\<rparr>"
  let ?run = "optimize ?obj 20 (create_study MINIMIZE) (scenario_world True)"
  have "fst ?run = None"
    by (rule scenario_never_raises [of _ "PStr ''m1''"]) (simp_all add: scenario_world_def)
  then obtain st' w' where run: "?run = (None, st', w')" by (cases ?run) auto
  from optimize_completes [OF run] have "length (trials st') = 20"
    by (auto simp: create_study_def)
  then have ne: "trials st' \<noteq> []" by auto
  from optimize_direction [OF run] have "direction st' = MINIMIZE" by (simp add: create_study_def)
  from best_trial_first_min [OF this ne] obtain b where b: "best_trial st' = Some b" by blast
  have "ForecastingTrainingTask_call scenario_env (scenario_task True) (scenario_world True)
       = (Inr (), (scenario_task True)\<lparr>study := Some st'\<rparr>,
          w'\<lparr>rpc_calls := rpc_calls w' @ [(PStr ''m1'', FINISHED, ''tid_'' @ str (fst b))]\<rparr>)"
    using run b
    by (simp add: ForecastingTrainingTask_call_def call_body_def scenario_task_def Let_def)
       (simp add: scenario_env_def)
  with run b show ?thesis by blast
qed

lemma scenario_tuning_returns:
  "ForecastingTrainingTask_call scenario_env (scenario_task True) (scenario_constructed True)
     = (Inr (), fst (snd (ForecastingTrainingTask_call scenario_env (scenario_task True)
                            (scenario_constructed True))), scenario_finished True)"
  "fst (ForecastingTrainingTask_call scenario_env (scenario_task True) (scenario_constructed True))
     = Inr ()"
  using scenario_tuning_call
  by (auto simp: scenario_finished_def scenario_constructed_tuning)

lemma scenario_finished_starts:
  "\<forall>ev\<in>set (executor_starts (scenario_finished True)). snd ev = Inr (scenario_loss (fst ev))"
proof -
  from scenario_tuning_call obtain st' w' and b :: "int \<times> real" where
    run: "optimize (TrainingTrialObjective_call scenario_env \<lparr>obj_model_configs = (), obj_dataset = ()\<rparr>)
        20 (create_study MINIMIZE) (scenario_world True) = (None, st', w')"
    and "ForecastingTrainingTask_call scenario_env (scenario_task True) (scenario_world True)
       = (Inr (), (scenario_task True)\<lparr>study := Some st'\<rparr>,
          w'\<lparr>rpc_calls := rpc_calls w' @ [(PStr ''m1'', FINISHED, ''tid_'' @ str (fst b))]\<rparr>)"
    by blast
  then have "executor_starts (scenario_finished True) = executor_starts w'"
    by (simp add: scenario_finished_def scenario_constructed_tuning)
  with scenario_starts [OF run] show ?thesis by (auto simp: scenario_world_def)
qed

lemma tid_1: "''tid_'' @ str (int i) = ''tid_1'' \<longleftrightarrow> i = 1"
proof
  assume "''tid_'' @ str (int i) = ''tid_1''"
  then have "str (int i) = str 1" by (simp add: str_def str_nat.simps digit_def)
  then have "int i = 1" by (rule str_inj)
  then show "i = 1" by simp
next
  assume "i = 1"
  then show "''tid_'' @ str (int i) = ''tid_1''" by (simp add: str_def str_nat.simps digit_def)
qed

section \<open>Properties of the task orchestrator and the trial objective\<close>

text \<open>
  Claim C1. A task is constructed with tuning enabled and then invoked. If the search
  driver does not terminate early, then the executor has been started exactly 20
  times, each time under a configuration whose trial identifier is \<open>tid_k\<close> for the
  sequence number \<open>k\<close> of that evaluation (\<open>k\<close> from 0 to 19, all these identifiers
  distinct), and \<open>update_model_state\<close> has been called exactly once, with the model
  identifier, \<open>FINISHED\<close> and the identifier of the first evaluation whose loss is
  the least of the 20.
\<close>

theorem tuning_reports_first_minimum:
  assumes init: "ForecastingTrainingTask_init env mc md ds w0 = (Inr self, w1)"
      and tun: "task_configs w0 ''tuning'' = Some tv" "truthy tv"
      and budget: "fst (optimize (TrainingTrialObjective_call env
                     \<lparr>obj_model_configs = mc, obj_dataset = ds\<rparr>) 20 (create_study MINIMIZE) w1) = None"
      and call: "ForecastingTrainingTask_call env self w1 = (r, self', w2)"
  shows "\<exists>losses cfgs i. length losses = 20 \<and> length cfgs = 20 \<and>
           executor_starts w2 = executor_starts w0 @ map (\<lambda>k. (cfgs ! k, Inr (losses ! k))) [0..<20] \<and>
           stdout w2 = stdout w0 @ map (\<lambda>k. (int k, losses ! k)) [0..<20] \<and>
           (\<forall>k<20. (cfgs ! k) ''trial_id'' = Some (PStr (''tid_'' @ str (int k)))) \<and>
           distinct (map (\<lambda>k. ''tid_'' @ str (int k)) [0..<20]) \<and>
           i < 20 \<and> (\<forall>j<20. losses ! i \<le> losses ! j) \<and> (\<forall>j<i. losses ! i < losses ! j) \<and>
           task_configs w0 ''model_id'' = Some (model_id self) \<and>
           rpc_calls w2 = rpc_calls w0 @ [(model_id self, FINISHED, ''tid_'' @ str (int i))]"
proof -
  note t = init_tuning [OF init tun]
  let ?obj = "TrainingTrialObjective_call env
                \<lparr>obj_model_configs = model_configs self, obj_dataset = dataset self\<rparr>"
  let ?st = "create_study MINIMIZE"
  obtain res st' w' where run0: "optimize ?obj 20 ?st w1 = (res, st', w')"
    by (cases "optimize ?obj 20 ?st w1") auto
  with budget t(5,6) have run: "optimize ?obj 20 ?st w1 = (None, st', w')" by simp
  from optimize_completes [OF run] obtain losses cfgs where c:
    "length losses = 20" "length cfgs = 20"
    "trials st' = map (\<lambda>k. (int k, losses ! k)) [0..<20]"
    "stdout w' = stdout w1 @ map (\<lambda>k. (int k, losses ! k)) [0..<20]"
    "executor_starts w' = executor_starts w1 @ map (\<lambda>k. (cfgs ! k, Inr (losses ! k))) [0..<20]"
    "\<forall>k<20. (cfgs ! k) ''trial_id'' = Some (PStr (''tid_'' @ str (int k)))"
    by (auto simp: create_study_def)
  from optimize_direction [OF run] have dir: "direction st' = MINIMIZE"
    by (simp add: create_study_def)
  from c(3) have len: "length (trials st') = 20" by simp
  then have "trials st' \<noteq> []" by auto
  from best_trial_first_min [OF dir this] len obtain i where i: "i < 20"
    "best_trial st' = Some (trials st' ! i)"
    "\<forall>j<20. snd (trials st' ! i) \<le> snd (trials st' ! j)"
    "\<forall>j<i. snd (trials st' ! i) < snd (trials st' ! j)"
    by auto
  have nth: "trials st' ! j = (int j, losses ! j)" if "j < 20" for j
    using that unfolding c(3) by simp
  from i(1) nth have bi: "best_trial st' = Some (int i, losses ! i)" using i(2) by simp
  have le: "\<forall>j<20. losses ! i \<le> losses ! j"
    using i(1,3) nth by fastforce
  have less: "\<forall>j<i. losses ! i < losses ! j"
  proof (intro allI impI)
    fix j assume "j < i"
    with i(1) have "j < 20" by simp
    from i(4) \<open>j < i\<close> have "snd (trials st' ! i) < snd (trials st' ! j)" by blast
    with nth [OF i(1)] nth [OF \<open>j < 20\<close>] show "losses ! i < losses ! j" by simp
  qed
  from call obtain w1' where body: "call_body env self w1 = (r, self', w1')"
    and w2: "w2 = (case r of Inl e \<Rightarrow> w1'\<lparr>warn_log := warn_log w1' @ [e]\<rparr> | Inr u \<Rightarrow> w1')"
    by (rule call_cases)
  from tun(2) t(3) have "truthy (tuning self)" by simp
  with body have "w1' = w'\<lparr>rpc_calls := rpc_calls w' @ [(model_id self, FINISHED, ''tid_'' @ str (int i))]\<rparr>"
  proof (cases rule: call_body_tuning_cases)
    case no_study
    with t(2) show ?thesis by simp
  next
    case (raised st e st'')
    with t(2) run show ?thesis by simp
  next
    case (no_best st st'')
    with t(2) run bi show ?thesis by simp
  next
    case (reported st st'' w'' b)
    with t(2) run bi show ?thesis by simp
  qed
  with w2 have "rpc_calls w2 = rpc_calls w' @ [(model_id self, FINISHED, ''tid_'' @ str (int i))]"
    "stdout w2 = stdout w'" "executor_starts w2 = executor_starts w'"
    by (simp_all split: sum.splits)
  with optimize_quiet [OF run] c(4,5) t(1)
  have fin: "rpc_calls w2 = rpc_calls w0 @ [(model_id self, FINISHED, ''tid_'' @ str (int i))]"
    "stdout w2 = stdout w0 @ map (\<lambda>k. (int k, losses ! k)) [0..<20]"
    "executor_starts w2 = executor_starts w0 @ map (\<lambda>k. (cfgs ! k, Inr (losses ! k))) [0..<20]"
    by simp_all
  show ?thesis
    apply (rule exI [of _ losses], rule exI [of _ cfgs], rule exI [of _ i])
    using c(1,2,6) fin tids_distinct [of 20] i(1) le less t(4) apply blast
    done
qed

text \<open>
  In the scenario of the spec the losses are 0.5, 0.3, 0.9, ..., and the theorem
  yields that the coordinator receives \<open>("m1", FINISHED, "tid_1")\<close>.
\<close>

theorem tuning_reports_first_minimum_witness:
  "ForecastingTrainingTask_init scenario_env () () () (scenario_world True)
     = (Inr (scenario_task True), scenario_constructed True) \<and>
   task_configs (scenario_world True) ''tuning'' = Some (PBool True) \<and>
   truthy (PBool True) \<and>
   fst (optimize (TrainingTrialObjective_call scenario_env
          \<lparr>obj_model_configs = (), obj_dataset = ()\<rparr>) 20 (create_study MINIMIZE)
          (scenario_constructed True)) = None \<and>
   fst (ForecastingTrainingTask_call scenario_env (scenario_task True) (scenario_constructed True))
     = Inr () \<and>
   rpc_calls (scenario_finished True) = [(PStr ''m1'', FINISHED, ''tid_1'')]"
proof -
  have tun: "task_configs (scenario_world True) ''tuning'' = Some (PBool True)"
    and calls: "rpc_calls (scenario_world True) = []"
    and starts: "executor_starts (scenario_world True) = []"
    by (simp_all add: scenario_world_def)
  have yes: "truthy (PBool True)" by simp
  have budget: "fst (optimize (TrainingTrialObjective_call scenario_env
          \<lparr>obj_model_configs = (), obj_dataset = ()\<rparr>) 20 (create_study MINIMIZE)
          (scenario_constructed True)) = None"
    by (rule scenario_never_raises [of _ "PStr ''m1''"])
       (simp_all add: scenario_constructed_tuning scenario_world_def)
  from tuning_reports_first_minimum [OF scenario_init(1) tun yes budget scenario_tuning_returns(1)]
  obtain losses cfgs i where w:
    "executor_starts (scenario_finished True) = map (\<lambda>k. (cfgs ! k, Inr (losses ! k))) [0..<20]"
    "\<forall>k<20. (cfgs ! k) ''trial_id'' = Some (PStr (''tid_'' @ str (int k)))"
    "i < 20" "\<forall>j<20. losses ! i \<le> losses ! j"
    "rpc_calls (scenario_finished True)
       = [(model_id (scenario_task True), FINISHED, ''tid_'' @ str (int i))]"
    using calls starts by auto
  have loss: "losses ! k = scenario_loss (cfgs ! k)" if "k < 20" for k
  proof -
    from that have "(cfgs ! k, Inr (losses ! k)) \<in> set (executor_starts (scenario_finished True))"
      unfolding w(1) by (auto simp del: upt_Suc)
    with scenario_finished_starts show ?thesis by fastforce
  qed
  from w(2) have "(cfgs ! 1) ''trial_id'' = Some (PStr ''tid_1'')"
    by (simp add: str_def str_nat.simps digit_def)
  with loss [of 1] have "losses ! 1 = 3 / 10" by (simp add: scenario_loss_def)
  moreover from w(4) have "losses ! i \<le> losses ! 1" by simp
  ultimately have "losses ! i \<le> 3 / 10" by simp
  with loss [OF w(3)] have "(cfgs ! i) ''trial_id'' = Some (PStr ''tid_1'')"
    by (simp add: scenario_loss_def split: if_splits)
  with w(2,3) have "''tid_'' @ str (int i) = ''tid_1''" by simp
  then have "i = 1" by (simp only: tid_1)
  with w(5) have "rpc_calls (scenario_finished True) = [(PStr ''m1'', FINISHED, ''tid_1'')]"
    by (simp add: scenario_task_def str_def str_nat.simps digit_def)
  with scenario_init(1) tun budget scenario_tuning_returns(2) show ?thesis by simp
qed

text \<open>
  Claim C2. A task is constructed with tuning disabled and model identifier \<open>m\<close>, and
  its invocation returns normally. Then the registry differs from the one before the
  construction in exactly one entry, the one under \<open>m\<close> and \<open>tid_0\<close>, which holds the
  identifier of the current process, and \<open>update_model_state\<close> has been called exactly
  once, with \<open>(m, FINISHED, "tid_0")\<close>.
\<close>

theorem direct_registers_and_reports_once:
  assumes init: "ForecastingTrainingTask_init env mc md ds w0 = (Inr self, w1)"
      and tun: "task_configs w0 ''tuning'' = Some tv" "\<not> truthy tv"
      and mid: "task_configs w0 ''model_id'' = Some m"
      and call: "ForecastingTrainingTask_call env self w1 = (Inr (), self', w2)"
  shows "\<exists>inner. task_trial_map w0 m = Some inner \<and>
           task_trial_map w2 = (task_trial_map w0)(m \<mapsto> inner(PStr ''tid_0'' \<mapsto> os_getpid env)) \<and>
           rpc_calls w2 = rpc_calls w0 @ [(m, FINISHED, ''tid_0'')]"
proof -
  note d = init_direct [OF init tun]
  from d(5) mid have m: "model_id self = m" by simp
  from d(1) obtain inner where i:
    "task_trial_map w0 m = Some inner"
    "w1 = w0\<lparr>task_configs := (task_configs w0)(''trial_id'' \<mapsto> PStr ''tid_0''),
              task_trial_map := (task_trial_map w0)(m \<mapsto> inner(PStr ''tid_0'' \<mapsto> os_getpid env))\<rparr>"
    unfolding m by blast
  from call obtain w' where body: "call_body env self w1 = (Inr (), self', w')" and w2: "w2 = w'"
    by (cases rule: call_cases) simp
  from tun(2) d(4) have "\<not> truthy (tuning self)" by simp
  with body have "task_trial_map w' = task_trial_map w1 \<and>
      rpc_calls w' = rpc_calls w1 @ [(m, FINISHED, ''tid_0'')]"
    by (cases rule: call_body_direct_cases) (use d(3) m in auto)
  moreover from i(2) have "task_trial_map w1 =
      (task_trial_map w0)(m \<mapsto> inner(PStr ''tid_0'' \<mapsto> os_getpid env))"
    "rpc_calls w1 = rpc_calls w0" by simp_all
  ultimately show ?thesis using i(1) w2 by simp
qed

theorem direct_registers_and_reports_once_witness:
  "ForecastingTrainingTask_init scenario_env () () () (scenario_world False)
     = (Inr (scenario_task False), scenario_constructed False) \<and>
   task_configs (scenario_world False) ''tuning'' = Some (PBool False) \<and>
   \<not> truthy (PBool False) \<and>
   task_configs (scenario_world False) ''model_id'' = Some (PStr ''m1'') \<and>
   ForecastingTrainingTask_call scenario_env (scenario_task False) (scenario_constructed False)
     = (Inr (), scenario_task False, scenario_finished False) \<and>
   task_trial_map (scenario_finished False) (PStr ''m1'') = Some [PStr ''tid_0'' \<mapsto> 4242] \<and>
   rpc_calls (scenario_finished False) = [(PStr ''m1'', FINISHED, ''tid_0'')]"
proof -
  have tun: "task_configs (scenario_world False) ''tuning'' = Some (PBool False)"
    and mid: "task_configs (scenario_world False) ''model_id'' = Some (PStr ''m1'')"
    and reg: "task_trial_map (scenario_world False) (PStr ''m1'') = Some Map.empty"
    and calls: "rpc_calls (scenario_world False) = []"
    by (simp_all add: scenario_world_def)
  have no: "\<not> truthy (PBool False)" by simp
  have pid: "os_getpid scenario_env = 4242" by (simp add: scenario_env_def)
  from direct_registers_and_reports_once [OF scenario_init(1) tun no mid scenario_direct_call(1)]
  show ?thesis
    using scenario_init(1) tun mid reg calls pid scenario_direct_call(1) by auto
qed

text \<open>
  Claim C3, evaluated on the code. The objective of the scenario is invoked with the
  sequence numbers 0 and 1. The two registry entries do not collide, but their keys
  are the integers 0 and 1, not the strings \<open>tid_0\<close> and \<open>tid_1\<close>; the trial
  identifier written to the configuration by the second invocation is \<open>tid_1\<close>.
\<close>

theorem objective_registers_under_sequence_number:
  "the (task_trial_map
     (snd (TrainingTrialObjective_call scenario_env \<lparr>obj_model_configs = (), obj_dataset = ()\<rparr> 1
        (snd (TrainingTrialObjective_call scenario_env \<lparr>obj_model_configs = (), obj_dataset = ()\<rparr> 0
           (scenario_world True))))) (PStr ''m1''))
     = [PInt 0 \<mapsto> 4242, PInt 1 \<mapsto> 4242] \<and>
   task_configs
     (snd (TrainingTrialObjective_call scenario_env \<lparr>obj_model_configs = (), obj_dataset = ()\<rparr> 1
        (snd (TrainingTrialObjective_call scenario_env \<lparr>obj_model_configs = (), obj_dataset = ()\<rparr> 0
           (scenario_world True))))) ''trial_id''
     = Some (PStr ''tid_1'')"
proof -
  have first: "task_configs (scenario_world True) ''model_id'' = Some (PStr ''m1'')"
    "task_trial_map (scenario_world True) (PStr ''m1'') = Some Map.empty"
    by (simp_all add: scenario_world_def)
  note one = scenario_objective_step [OF first, of "\<lparr>obj_model_configs = (), obj_dataset = ()\<rparr>" 0]
  show ?thesis
    unfolding one
    by (subst scenario_objective_step [of _ "PStr ''m1''" "[PInt 0 \<mapsto> 4242]"],
        simp add: scenario_world_def, simp add: scenario_world_def,
        subst scenario_objective_step [of _ "PStr ''m1''" "[PInt 0 \<mapsto> 4242]"])
       (simp_all add: scenario_world_def str_def str_nat.simps digit_def)
qed

text \<open>
  Claim C4. In either mode: if during an invocation the executor's \<open>start()\<close> raises
  \<open>e\<close>, then \<open>update_model_state\<close> is not called, exactly one line is added to the
  warning log, namely \<open>e\<close>, and the invocation raises \<open>e\<close>.
\<close>

theorem executor_failure_skips_report:
  assumes call: "ForecastingTrainingTask_call env self w = (r, self', w')"
      and evs: "executor_starts w' = executor_starts w @ evs" "(c, Inl e) \<in> set evs"
  shows "r = Inl e \<and> rpc_calls w' = rpc_calls w \<and> warn_log w' = warn_log w @ [e]"
proof -
  from call obtain w1 where body: "call_body env self w = (r, self', w1)"
    and w': "w' = (case r of Inl e \<Rightarrow> w1\<lparr>warn_log := warn_log w1 @ [e]\<rparr> | Inr u \<Rightarrow> w1)"
    by (rule call_cases)
  from w' have same: "executor_starts w' = executor_starts w1"
    by (simp split: sum.splits)
  have "r = Inl e \<and> rpc_calls w1 = rpc_calls w \<and> warn_log w1 = warn_log w"
  proof (cases "truthy (tuning self)")
    case True
    have run: "r = Inl e \<and> rpc_calls w1 = rpc_calls w \<and> warn_log w1 = warn_log w"
      if opt: "optimize (TrainingTrialObjective_call env
          \<lparr>obj_model_configs = model_configs self, obj_dataset = dataset self\<rparr>) 20 st w
        = (res, st', w2)" and ex: "executor_starts w1 = executor_starts w2"
        and ok: "res = Some e \<Longrightarrow> r = Inl e \<and> w1 = w2" for st res st' w2
    proof -
      from optimize_starts [OF opt] obtain evs' where
        "executor_starts w2 = executor_starts w @ evs'"
        "\<forall>c e. (c, Inl e) \<in> set evs' \<longrightarrow> res = Some e" by blast
      with evs same ex have "res = Some e" by simp
      with ok optimize_quiet [OF opt] show ?thesis by simp
    qed
    from body True show ?thesis
    proof (cases rule: call_body_tuning_cases)
      case no_study
      with evs same show ?thesis by simp
    next
      case (raised st e' st')
      from run [OF raised(2)] raised(3) show ?thesis by simp
    next
      case (no_best st st')
      from run [OF no_best(2)] show ?thesis by simp
    next
      case (reported st st' w2 b)
      from run [OF reported(2)] reported(4) show ?thesis by simp
    qed
  next
    case False
    from body False show ?thesis
      by (cases rule: call_body_direct_cases) (use evs same in auto)
  qed
  with w' show ?thesis by simp
qed

theorem executor_failure_skips_report_witness:
  "ForecastingTrainingTask_call failing_env (scenario_task False) (scenario_constructed False)
     = (Inl (OtherError ''training failed''), scenario_task False, scenario_failed) \<and>
   executor_starts scenario_failed = executor_starts (scenario_constructed False) @
     [(task_configs (scenario_constructed False), Inl (OtherError ''training failed''))] \<and>
   rpc_calls scenario_failed = rpc_calls (scenario_constructed False) \<and>
   warn_log scenario_failed = warn_log (scenario_constructed False) @ [OtherError ''training failed'']"
proof -
  have "(task_configs (scenario_constructed False), Inl (OtherError ''training failed''))
      \<in> set [(task_configs (scenario_constructed False), Inl (OtherError ''training failed'') :: exn + real)]"
    by simp
  from executor_failure_skips_report [OF scenario_failed_call(1) scenario_failed_call(4) this]
  show ?thesis using scenario_failed_call(1,4) by simp
qed



text \<open>
  Claim C6 as stated fails: in the scenario with tuning disabled, the construction
  alone, with no invocation after it, has already put \<open>tid_0\<close> into the configuration
  and the process identifier into the registry; neither was there before.
\<close>

theorem construction_mutates_before_invocation:
  "task_configs (scenario_world False) ''trial_id'' = None \<and>
   the (task_trial_map (scenario_world False) (PStr ''m1'')) (PStr ''tid_0'') = None \<and>
   fst (ForecastingTrainingTask_init scenario_env () () () (scenario_world False))
     = Inr (scenario_task False) \<and>
   task_configs (snd (ForecastingTrainingTask_init scenario_env () () () (scenario_world False)))
     ''trial_id'' = Some (PStr ''tid_0'') \<and>
   the (task_trial_map (snd (ForecastingTrainingTask_init scenario_env () () () (scenario_world False)))
          (PStr ''m1'')) (PStr ''tid_0'') = Some 4242"
  by (simp add: ForecastingTrainingTask_init_def scenario_env_def scenario_world_def
        scenario_task_def)

text \<open>
  Claim C6, amended. When tuning is disabled, it is the construction of the task that
  assigns \<open>tid_0\<close> to the configuration and records the process identifier in the
  registry under the model identifier and \<open>tid_0\<close>; the invocation changes neither
  the configuration nor the registry.
\<close>

theorem direct_mutations_at_construction:
  assumes init: "ForecastingTrainingTask_init env mc md ds w0 = (Inr self, w1)"
      and tun: "task_configs w0 ''tuning'' = Some tv" "\<not> truthy tv"
  shows "task_configs w1 = (task_configs w0)(''trial_id'' \<mapsto> PStr ''tid_0'') \<and>
         (\<exists>inner. task_trial_map w0 (model_id self) = Some inner \<and>
            task_trial_map w1 = (task_trial_map w0)
              (model_id self \<mapsto> inner(PStr ''tid_0'' \<mapsto> os_getpid env))) \<and>
         task_configs w0 ''model_id'' = Some (model_id self) \<and>
         task_configs (snd (snd (ForecastingTrainingTask_call env self w1))) = task_configs w1 \<and>
         task_trial_map (snd (snd (ForecastingTrainingTask_call env self w1))) = task_trial_map w1"
proof -
  note d = init_direct [OF init tun]
  from d(1) obtain inner where i: "task_trial_map w0 (model_id self) = Some inner"
    "w1 = w0\<lparr>task_configs := (task_configs w0)(''trial_id'' \<mapsto> PStr ''tid_0''),
              task_trial_map := (task_trial_map w0)
                 (model_id self \<mapsto> inner(PStr ''tid_0'' \<mapsto> os_getpid env))\<rparr>"
    by blast
  from i(2) have "task_configs w1 = (task_configs w0)(''trial_id'' \<mapsto> PStr ''tid_0'')"
    "task_trial_map w1 = (task_trial_map w0)
              (model_id self \<mapsto> inner(PStr ''tid_0'' \<mapsto> os_getpid env))"
    by simp_all
  moreover from tun(2) d(4) have "\<not> truthy (tuning self)" by simp
  note direct_call_keeps_dictionaries [OF this, of env w1]
  ultimately show ?thesis using i(1) d(5) by blast
qed

theorem direct_mutations_at_construction_witness:
  "ForecastingTrainingTask_init scenario_env () () () (scenario_world False)
     = (Inr (scenario_task False), scenario_constructed False) \<and>
   task_configs (scenario_world False) ''tuning'' = Some (PBool False) \<and>
   \<not> truthy (PBool False) \<and>
   task_configs (scenario_constructed False) ''trial_id'' = Some (PStr ''tid_0'') \<and>
   task_trial_map (scenario_constructed False) (PStr ''m1'') = Some [PStr ''tid_0'' \<mapsto> 4242] \<and>
   task_configs (scenario_finished False) = task_configs (scenario_constructed False) \<and>
   task_trial_map (scenario_finished False) = task_trial_map (scenario_constructed False)"
proof -
  have tun: "task_configs (scenario_world False) ''tuning'' = Some (PBool False)"
    and reg: "task_trial_map (scenario_world False) (PStr ''m1'') = Some Map.empty"
    and mid: "model_id (scenario_task False) = PStr ''m1''"
    and pid: "os_getpid scenario_env = 4242"
    by (simp_all add: scenario_world_def scenario_task_def scenario_env_def)
  have no: "\<not> truthy (PBool False)" by simp
  from direct_mutations_at_construction [OF scenario_init(1) tun no]
  show ?thesis
    using scenario_init(1) tun reg mid pid by (auto simp: scenario_finished_def)
qed

text \<open>
  Claim C7. The construction of a task calls \<open>update_model_state\<close> not at all, and an
  invocation, in either mode and whatever its outcome, calls it at most once; every
  such call carries the state \<open>FINISHED\<close>.
\<close>

theorem only_finished_reported:
  "rpc_calls (snd (ForecastingTrainingTask_init env mc md ds w0)) = rpc_calls w0 \<and>
   (\<exists>new. rpc_calls (snd (snd (ForecastingTrainingTask_call env self w))) = rpc_calls w @ new \<and>
      length new \<le> 1 \<and> (\<forall>c\<in>set new. fst (snd c) = FINISHED))"
proof -
  obtain r self' w' where call: "ForecastingTrainingTask_call env self w = (r, self', w')"
    by (cases "ForecastingTrainingTask_call env self w") auto
  then obtain w1 where body: "call_body env self w = (r, self', w1)"
    and w': "w' = (case r of Inl e \<Rightarrow> w1\<lparr>warn_log := warn_log w1 @ [e]\<rparr> | Inr u \<Rightarrow> w1)"
    by (rule call_cases)
  from w' have "rpc_calls w' = rpc_calls w1" by (simp split: sum.splits)
  with call_body_effects(2) [OF body] call init_rpc [of env mc md ds w0]
  show ?thesis by auto
qed

theorem only_finished_reported_witness:
  "rpc_calls (snd (ForecastingTrainingTask_init scenario_env () () () (scenario_world False))) = [] \<and>
   rpc_calls (scenario_finished False) = [(PStr ''m1'', FINISHED, ''tid_0'')] \<and>
   fst (snd (hd (rpc_calls (scenario_finished False)))) = FINISHED"
proof -
  have "rpc_calls (scenario_world False) = []" by (simp add: scenario_world_def)
  with only_finished_reported [of scenario_env "()" "()" "()" "scenario_world False"
          "scenario_task False" "scenario_constructed False"]
       scenario_direct_call(2)
  show ?thesis by simp
qed

text \<open>
  Claim C8. If the sampling primitive returns a value within the bounds it is given,
  then the learning rate that an evaluation of the objective writes into the
  configuration lies between \<open>1e-7\<close> and \<open>1e-1\<close>, and so does the learning rate in
  the configuration of every executor started during a run of the search driver.
\<close>

theorem learning_rate_within_bounds:
  assumes sampler: "\<forall>k name lo hi lg. lo \<le> hi \<longrightarrow>
        lo \<le> suggest_float env k name lo hi lg \<and> suggest_float env k name lo hi lg \<le> hi"
  shows "(\<exists>x. task_configs (snd (TrainingTrialObjective_call env obj k w)) ''learning_rate''
               = Some (PFloat x) \<and> 1 / 10 ^ 7 \<le> x \<and> x \<le> 1 / 10) \<and>
         (\<exists>evs. executor_starts (snd (snd (optimize (TrainingTrialObjective_call env obj) n st w)))
                  = executor_starts w @ evs \<and>
            (\<forall>c\<in>set evs. \<exists>x. fst c ''learning_rate'' = Some (PFloat x) \<and>
                 1 / 10 ^ 7 \<le> x \<and> x \<le> 1 / 10))"
proof -
  have range: "1 / 10 ^ 7 \<le> suggest_float env j ''lr'' (1 / 10 ^ 7) (1 / 10) True \<and>
      suggest_float env j ''lr'' (1 / 10 ^ 7) (1 / 10) True \<le> 1 / 10" for j
  proof -
    have "(1 / 10 ^ 7 :: real) \<le> 1 / 10" by simp
    with sampler show ?thesis by blast
  qed
  obtain r w' where one: "TrainingTrialObjective_call env obj k w = (r, w')"
    by (cases "TrainingTrialObjective_call env obj k w") auto
  from objective_configs [OF one] range [of k] one
  have first: "\<exists>x. task_configs (snd (TrainingTrialObjective_call env obj k w)) ''learning_rate''
               = Some (PFloat x) \<and> 1 / 10 ^ 7 \<le> x \<and> x \<le> 1 / 10"
    by simp
  obtain res st' w'' where run: "optimize (TrainingTrialObjective_call env obj) n st w = (res, st', w'')"
    by (cases "optimize (TrainingTrialObjective_call env obj) n st w") auto
  from optimize_starts [OF run] obtain evs where evs:
    "executor_starts w'' = executor_starts w @ evs"
    "\<forall>c r. (c, r) \<in> set evs \<longrightarrow>
        (\<exists>k. c ''learning_rate'' =
               Some (PFloat (suggest_float env k ''lr'' (1 / 10 ^ 7) (1 / 10) True)))"
    by blast
  have "\<forall>c\<in>set evs. \<exists>x. fst c ''learning_rate'' = Some (PFloat x) \<and>
                 1 / 10 ^ 7 \<le> x \<and> x \<le> 1 / 10"
  proof
    fix c assume "c \<in> set evs"
    then have "(fst c, snd c) \<in> set evs" by simp
    with evs(2) obtain j where "fst c ''learning_rate'' =
               Some (PFloat (suggest_float env j ''lr'' (1 / 10 ^ 7) (1 / 10) True))" by blast
    with range [of j] show "\<exists>x. fst c ''learning_rate'' = Some (PFloat x) \<and>
                 1 / 10 ^ 7 \<le> x \<and> x \<le> 1 / 10" by blast
  qed
  with evs(1) run first show ?thesis by auto
qed

theorem learning_rate_within_bounds_witness:
  "task_configs (snd (TrainingTrialObjective_call scenario_env
       \<lparr>obj_model_configs = (), obj_dataset = ()\<rparr> 0 (scenario_world True))) ''learning_rate''
     = Some (PFloat (1 / 10 ^ 7)) \<and> (1 / 10 ^ 7 :: real) \<le> 1 / 10"
proof -
  have sampler: "\<forall>k name lo hi lg. lo \<le> hi \<longrightarrow>
        lo \<le> suggest_float scenario_env k name lo hi lg \<and>
        suggest_float scenario_env k name lo hi lg \<le> hi"
    by (simp add: scenario_env_def)
  have step: "task_configs (snd (TrainingTrialObjective_call scenario_env
       \<lparr>obj_model_configs = (), obj_dataset = ()\<rparr> 0 (scenario_world True))) ''learning_rate''
     = Some (PFloat (1 / 10 ^ 7))"
    by (subst scenario_objective_step [of _ "PStr ''m1''" Map.empty])
       (simp_all add: scenario_world_def)
  from learning_rate_within_bounds [OF sampler, of "\<lparr>obj_model_configs = (), obj_dataset = ()\<rparr>"
      0 "scenario_world True" 0 "create_study MINIMIZE"] step
  show ?thesis by auto
qed

text \<open>
  Claim C9. A task is constructed with tuning enabled and then invoked. Every registry
  entry present afterwards either was there before, with the same value, or holds
  the identifier of the one process that executes the task; and if the invocation
  returns normally, the entries of all 20 trials are present and hold it.
\<close>

theorem tuning_registers_one_pid:
  assumes init: "ForecastingTrainingTask_init env mc md ds w0 = (Inr self, w1)"
      and tun: "task_configs w0 ''tuning'' = Some tv" "truthy tv"
      and call: "ForecastingTrainingTask_call env self w1 = (r, self', w2)"
  shows "(\<forall>m inner' key v. task_trial_map w2 m = Some inner' \<longrightarrow> inner' key = Some v \<longrightarrow>
            v = os_getpid env \<or> (\<exists>inner. task_trial_map w0 m = Some inner \<and> inner key = Some v)) \<and>
         (r = Inr () \<longrightarrow>
            (\<exists>inner'. task_trial_map w2 (model_id self) = Some inner' \<and>
               (\<forall>k<20. inner' (PInt (int k)) = Some (os_getpid env))))"
proof -
  note t = init_tuning [OF init tun]
  from call obtain w' where body: "call_body env self w1 = (r, self', w')"
    and w2: "w2 = (case r of Inl e \<Rightarrow> w'\<lparr>warn_log := warn_log w' @ [e]\<rparr> | Inr u \<Rightarrow> w')"
    by (rule call_cases)
  from w2 have reg: "task_trial_map w2 = task_trial_map w'" by (simp split: sum.splits)
  have only: "registers_only (os_getpid env) (task_trial_map w0) (task_trial_map w2)"
    using call_body_effects(4) [OF body] reg t(1) by simp
  have first: "\<forall>m inner' key v. task_trial_map w2 m = Some inner' \<longrightarrow> inner' key = Some v \<longrightarrow>
            v = os_getpid env \<or> (\<exists>inner. task_trial_map w0 m = Some inner \<and> inner key = Some v)"
  proof (intro allI impI)
    fix m inner' key v
    assume a: "task_trial_map w2 m = Some inner'" "inner' key = Some v"
    from registers_only_Some [OF only a(1)] obtain inner where
      "task_trial_map w0 m = Some inner" "inner' key = inner key \<or> inner' key = Some (os_getpid env)"
      by blast
    with a(2) show "v = os_getpid env \<or> (\<exists>inner. task_trial_map w0 m = Some inner \<and> inner key = Some v)"
      by auto
  qed
  have second: "\<exists>inner'. task_trial_map w2 (model_id self) = Some inner' \<and>
               (\<forall>k<20. inner' (PInt (int k)) = Some (os_getpid env))" if ok: "r = Inr ()"
  proof -
    from tun(2) t(3) have "truthy (tuning self)" by simp
    with body obtain st' w'' where run: "optimize (TrainingTrialObjective_call env
          \<lparr>obj_model_configs = model_configs self, obj_dataset = dataset self\<rparr>) 20
          (create_study MINIMIZE) w1 = (None, st', w'')"
      and same: "task_trial_map w' = task_trial_map w''"
      by (cases rule: call_body_tuning_cases) (use ok t(2) in auto)
    have each: "\<exists>inner'. task_trial_map w2 (model_id self) = Some inner' \<and>
        inner' (PInt (int k)) = Some (os_getpid env)" if "k < 20" for k
      using optimize_completes_registry [OF run that] t(1,4) reg same
      by (auto simp: create_study_def)
    from each [of 0] obtain inner' where inner': "task_trial_map w2 (model_id self) = Some inner'"
      by auto
    with each have "\<forall>k<20. inner' (PInt (int k)) = Some (os_getpid env)" by fastforce
    with inner' show ?thesis by blast
  qed
  from first second show ?thesis by blast
qed

theorem tuning_registers_one_pid_witness:
  "ForecastingTrainingTask_init scenario_env () () () (scenario_world True)
     = (Inr (scenario_task True), scenario_constructed True) \<and>
   task_configs (scenario_world True) ''tuning'' = Some (PBool True) \<and>
   truthy (PBool True) \<and>
   fst (ForecastingTrainingTask_call scenario_env (scenario_task True) (scenario_constructed True))
     = Inr () \<and>
   the (task_trial_map (scenario_finished True) (PStr ''m1'')) (PInt 0) = Some 4242 \<and>
   the (task_trial_map (scenario_finished True) (PStr ''m1'')) (PInt 19) = Some 4242"
proof -
  have tun: "task_configs (scenario_world True) ''tuning'' = Some (PBool True)"
    and mid: "model_id (scenario_task True) = PStr ''m1''"
    and pid: "os_getpid scenario_env = 4242"
    by (simp_all add: scenario_world_def scenario_task_def scenario_env_def)
  have yes: "truthy (PBool True)" by simp
  from tuning_registers_one_pid [OF scenario_init(1) tun yes scenario_tuning_returns(1)]
  obtain inner' where i: "task_trial_map (scenario_finished True) (PStr ''m1'') = Some inner'"
    "\<forall>k<20. inner' (PInt (int k)) = Some 4242"
    using mid pid by auto
  from i(2) have "inner' (PInt (int 0)) = Some 4242" "inner' (PInt (int 19)) = Some 4242"
    by (simp_all del: of_nat_0 of_nat_numeral)
  with i(1) have "the (task_trial_map (scenario_finished True) (PStr ''m1'')) (PInt 0) = Some 4242"
    "the (task_trial_map (scenario_finished True) (PStr ''m1'')) (PInt 19) = Some 4242"
    by simp_all
  with scenario_init(1) tun scenario_tuning_returns(2) show ?thesis by simp
qed

section \<open>Properties of the UDF configuration check\<close>

text \<open>
  The whole behaviour of \<open>check\<close>, state by state: on an object whose attribute was
  never assigned the read on line 31 raises \<open>AttributeError\<close>; on a stored \<open>None\<close>
  it raises \<open>UDFException\<close> with the description "UDF output_data_type is not set.";
  on a stored type it returns normally. The object is never changed, and
  \<open>get_output_data_type\<close> afterwards gives what it gave before.
\<close>

lemma check_in_each_state:
  "(output_data_type self = None \<longrightarrow>
      fst (check self) = Inl (AttributeError ''_output_data_type''))
   \<and> (output_data_type self = Some None \<longrightarrow>
      fst (check self) = Inl (UDFException ''UDF output_data_type is not set.''))
   \<and> (\<forall>t. output_data_type self = Some (Some t) \<longrightarrow> fst (check self) = Inr ())
   \<and> snd (check self) = self
   \<and> get_output_data_type (snd (check self)) = get_output_data_type self"
  by (simp add: check_def split: option.splits)

text \<open>
  Claim C10, evaluated on the code. On a fresh \<open>UDFConfigurations\<close> object, whose
  \<open>_output_data_type\<close> was never assigned (the class body only annotates it), the
  stored output data type is not \<open>None\<close>, yet \<open>check\<close> does not return normally, and
  it does not raise the \<open>UDFException\<close> that reports a type that is not set: it
  raises \<open>AttributeError\<close>, as \<open>get_output_data_type\<close> does. The object is left as
  it was.
\<close>

theorem check_on_fresh_object_raises_AttributeError:
  "check \<lparr>output_data_type = (None :: nat option option)\<rparr>
     = (Inl (AttributeError ''_output_data_type''), \<lparr>output_data_type = None\<rparr>) \<and>
   get_output_data_type \<lparr>output_data_type = (None :: nat option option)\<rparr>
     = (Inl (AttributeError ''_output_data_type''), \<lparr>output_data_type = None\<rparr>)"
  by (simp add: check_def get_output_data_type_def)

end
